theory Spec2Isabelle
  imports Complex_Main "HOL-Library.Word"
begin

unbundle bit_operations_syntax

section \<open>Errors and values shared by all records\<close>

text \<open>
  The record layer of \<^verbatim>\<open>fatamorgana/records.py\<close> raises \<^verbatim>\<open>InvalidDataError\<close> with a
  message; the message is kept up to its first formatted argument.  Python's own
  \<^verbatim>\<open>TypeError\<close> and \<^verbatim>\<open>AttributeError\<close> are raised by the interpreter where the code
  compares \<^verbatim>\<open>None\<close> with an integer or reads an attribute that does not exist.
\<close>

datatype error = InvalidDataError string | TypeError | AttributeError

definition ebind :: "error + 'a \<Rightarrow> ('a \<Rightarrow> error + 'b) \<Rightarrow> error + 'b" where
  "ebind v f = (case v of Inl e \<Rightarrow> Inl e | Inr a \<Rightarrow> f a)"

type_synonym byte = "8 word"

text \<open>\<^verbatim>\<open>repetition_t\<close>: the reuse marker, or one of the explicit repetitions, whose
  contents (defined outside \<^verbatim>\<open>records.py\<close>) are the type parameter.\<close>

datatype 'rep repetition_t = ReuseRepetition | Repetition 'rep

text \<open>A name field is \<^verbatim>\<open>int or NString\<close>, a text field \<^verbatim>\<open>int or AString\<close>.\<close>

datatype name_t = NameRef nat | NString string

datatype string_t = StringRef nat | AString string

text \<open>\<^verbatim>\<open>real_t\<close> values (Python integers and floats) are modelled as exact rationals:
  the rounding of floating-point division is not modelled, so that the model is the
  code on the values on which \<^verbatim>\<open>/\<close> and \<^verbatim>\<open>%\<close> are exact.\<close>

type_synonym real_t = rat

datatype PathExtensionScheme = Flush | HalfWidth | Arbitrary

type_synonym pathextension_t = "PathExtensionScheme \<times> int option"

type_synonym point_list_t = "int list list"

section \<open>Modal variables\<close>

text \<open>
  An attribute of the modals object as \<^verbatim>\<open>getattr(modals, m_field)\<close> finds it: the
  attribute does not exist, and \<^verbatim>\<open>getattr\<close> raises \<^verbatim>\<open>AttributeError\<close>, or it holds a
  value, which may be \<^verbatim>\<open>None\<close>.
\<close>

datatype 'a attribute = Absent | Present "'a option"

text \<open>
  Class \<^verbatim>\<open>Modals\<close>.  The attributes that the class declares always exist.  The last
  field, \<open>path_half_width\<close>, is not declared by the class: it is the attribute that
  \<^verbatim>\<open>Path.merge_with_modals\<close> and \<^verbatim>\<open>Path.deduplicate_with_modals\<close> name in
  \<^verbatim>\<open>getattr\<close>/\<^verbatim>\<open>setattr\<close> (the declared one is \<open>path_halfwidth\<close>).  It does not exist in a
  new object, comes to exist by \<^verbatim>\<open>setattr\<close>, and \<^verbatim>\<open>reset\<close> does not touch it.
\<close>

record ('rep, 'pv) Modals =
  repetition :: "'rep repetition_t option"
  placement_x :: int
  placement_y :: int
  placement_cell :: "name_t option"
  layer :: "nat option"
  datatype' :: "nat option"
  text_layer :: "nat option"
  text_datatype :: "nat option"
  text_x :: int
  text_y :: int
  text_string :: "string_t option"
  geometry_x :: int
  geometry_y :: int
  xy_relative :: bool
  geometry_w :: "nat option"
  geometry_h :: "nat option"
  polygon_point_list :: "point_list_t option"
  path_halfwidth :: "nat option"
  path_point_list :: "point_list_t option"
  path_extension_start :: "pathextension_t option"
  path_extension_end :: "pathextension_t option"
  ctrapezoid_type :: "nat option"
  circle_radius :: "nat option"
  property_value_list :: "'pv list option"
  property_name :: "name_t option"
  property_is_standard :: "bool option"
  path_half_width :: "nat attribute"

definition reset :: "('rep, 'pv) Modals \<Rightarrow> ('rep, 'pv) Modals" where
  "reset self = self
     \<lparr> Modals.repetition := None,
       placement_x := 0,
       placement_y := 0,
       placement_cell := None,
       Modals.layer := None,
       Modals.datatype' := None,
       text_layer := None,
       text_datatype := None,
       text_x := 0,
       text_y := 0,
       text_string := None,
       geometry_x := 0,
       geometry_y := 0,
       xy_relative := False,
       geometry_w := None,
       geometry_h := None,
       polygon_point_list := None,
       path_halfwidth := None,
       path_point_list := None,
       path_extension_start := None,
       path_extension_end := None,
       ctrapezoid_type := None,
       circle_radius := None,
       property_value_list := None,
       property_name := None,
       property_is_standard := None \<rparr>"

text \<open>\<^verbatim>\<open>Modals()\<close>: a new object, whose constructor calls \<^verbatim>\<open>reset\<close>.\<close>

definition Modals_init :: "('rep, 'pv) Modals" where
  "Modals_init =
     \<lparr> Modals.repetition = None, placement_x = 0, placement_y = 0, placement_cell = None,
       layer = None, datatype' = None, text_layer = None, text_datatype = None,
       text_x = 0, text_y = 0, text_string = None, geometry_x = 0, geometry_y = 0,
       xy_relative = False, geometry_w = None, geometry_h = None,
       polygon_point_list = None, path_halfwidth = None, path_point_list = None,
       path_extension_start = None, path_extension_end = None, ctrapezoid_type = None,
       circle_radius = None, property_value_list = None, property_name = None,
       property_is_standard = None, path_half_width = Absent \<rparr>"

section \<open>The merge and dedup engine\<close>

text \<open>
  The helpers of \<^verbatim>\<open>records.py\<close> read and write attributes of the record and of the
  modals by name.  Here each takes the current values of the attributes it names and
  returns the values they have afterwards, record attribute first; the caller stores
  them.  A raise is \<open>Inl\<close>.  \<^verbatim>\<open>adjust_field\<close> and \<^verbatim>\<open>dedup_field\<close> are called with any
  name for the modal attribute, so that they take the attribute as \<^verbatim>\<open>getattr\<close> finds it;
  their \<^verbatim>\<open>getattr\<close> on the record is always on an attribute of its class.  After a
  call that returns, the modal attribute exists, and its value is returned.
\<close>

definition adjust_repetition ::
  "'rep repetition_t option \<Rightarrow> 'rep repetition_t option
     \<Rightarrow> error + ('rep repetition_t option \<times> 'rep repetition_t option)" where
  "adjust_repetition r_rep m_rep =
     (case r_rep of
        None \<Rightarrow> Inr (r_rep, m_rep)
      | Some ReuseRepetition \<Rightarrow>
          (case m_rep of
             None \<Rightarrow> Inl (InvalidDataError ''Unfillable repetition'')
           | Some m \<Rightarrow> Inr (Some m, m_rep))
      | Some (Repetition v) \<Rightarrow> Inr (r_rep, Some (Repetition v)))"

definition adjust_field ::
  "string \<Rightarrow> 'a option \<Rightarrow> 'a attribute \<Rightarrow> error + ('a option \<times> 'a option)" where
  "adjust_field m_field r m =
     (case r of
        Some v \<Rightarrow> Inr (r, Some v)
      | None \<Rightarrow>
          (case m of
             Absent \<Rightarrow> Inl AttributeError
           | Present None \<Rightarrow> Inl (InvalidDataError (''Unfillable field: '' @ m_field))
           | Present (Some w) \<Rightarrow> Inr (Some w, Some w)))"

definition adjust_coordinates ::
  "bool \<Rightarrow> int option \<times> int option \<Rightarrow> int \<times> int
     \<Rightarrow> error + ((int option \<times> int option) \<times> (int \<times> int))" where
  "adjust_coordinates relative r_xy m_xy =
     (let (rx, ry) = r_xy; (mx, my) = m_xy;
          (rx', mx') =
             (case rx of
                Some v \<Rightarrow> if relative then (Some (v + mx), mx) else (rx, v)
              | None \<Rightarrow> (Some mx, mx));
          (ry', my') =
             (case ry of
                Some v \<Rightarrow> if relative then (Some (v + my), my) else (ry, v)
              | None \<Rightarrow> (Some my, my))
      in Inr ((rx', ry'), (mx', my')))"

definition dedup_repetition ::
  "'rep repetition_t option \<Rightarrow> 'rep repetition_t option
     \<Rightarrow> error + ('rep repetition_t option \<times> 'rep repetition_t option)" where
  "dedup_repetition r_rep m_rep =
     (case r_rep of
        None \<Rightarrow> Inr (r_rep, m_rep)
      | Some ReuseRepetition \<Rightarrow>
          (if m_rep = None then Inl (InvalidDataError ''Unfillable repetition'')
           else Inr (r_rep, m_rep))
      | Some (Repetition v) \<Rightarrow>
          (if r_rep = m_rep then Inr (Some ReuseRepetition, m_rep)
           else Inr (r_rep, r_rep)))"

definition dedup_field :: "'a option \<Rightarrow> 'a attribute \<Rightarrow> error + ('a option \<times> 'a option)" where
  "dedup_field r a =
     (case a of
        Absent \<Rightarrow> Inl AttributeError
      | Present m \<Rightarrow>
          (case r of
             Some v \<Rightarrow> if m \<noteq> None \<and> m = r then Inr (None, m) else Inr (r, r)
           | None \<Rightarrow>
               if m = None then Inl (InvalidDataError ''Unfillable field'') else Inr (r, m)))"

definition dedup_coordinates ::
  "bool \<Rightarrow> int option \<times> int option \<Rightarrow> int \<times> int
     \<Rightarrow> error + ((int option \<times> int option) \<times> (int \<times> int))" where
  "dedup_coordinates relative r_xy m_xy =
     (let (rx, ry) = r_xy; (mx, my) = m_xy;
          (rx', mx') =
             (case rx of
                Some v \<Rightarrow>
                  if relative then (Some (v - mx), mx)
                  else if v = mx then (None, mx) else (rx, v)
              | None \<Rightarrow> (rx, mx));
          (ry', my') =
             (case ry of
                Some v \<Rightarrow>
                  if relative then (Some (v - my), my)
                  else if v = my then (None, my) else (ry, v)
              | None \<Rightarrow> (ry, my))
      in Inr ((rx', ry'), (mx', my')))"

section \<open>Records\<close>

text \<open>One record type per class, with the attributes of the class.  \<^verbatim>\<open>Pad\<close> has none.\<close>

record XYMode =
  relative :: bool

record 'ot Start =
  version :: string
  unit :: real_t
  offset_table :: "'ot option"

record ('ot, 'val) End =
  offset_table :: "'ot option"
  validation :: 'val

record CBlock =
  compression_type :: nat
  decompressed_byte_count :: nat
  compressed_bytes :: "byte list"

record CellName =
  nstring :: string
  reference_number :: "nat option"

record PropName =
  nstring :: string
  reference_number :: "nat option"

record TextString =
  astring :: string
  reference_number :: "nat option"

record PropString =
  astring :: string
  reference_number :: "nat option"

record LayerName =
  nstring :: string
  layer_interval :: "nat option \<times> nat option"
  type_interval :: "nat option \<times> nat option"
  is_textlayer :: bool

record 'pv Property =
  name :: "name_t option"
  values' :: "'pv list option"
  is_standard :: "bool option"

record XName =
  attribute :: nat
  bstring :: "byte list"
  reference_number :: "nat option"

record XElement =
  attribute :: nat
  bstring :: "byte list"

record 'rep XGeometry =
  attribute :: nat
  bstring :: "byte list"
  layer :: "nat option"
  datatype' :: "nat option"
  x :: "int option"
  y :: "int option"
  repetition :: "'rep repetition_t option"

record Cell =
  name :: name_t

record 'rep Placement =
  name :: "name_t option"
  magnification :: "real_t option"
  angle :: "real_t option"
  x :: "int option"
  y :: "int option"
  repetition :: "'rep repetition_t option"
  flip :: bool

record 'rep Text =
  string :: "string_t option"
  layer :: "nat option"
  datatype' :: "nat option"
  x :: "int option"
  y :: "int option"
  repetition :: "'rep repetition_t option"

record 'rep Rectangle =
  layer :: "nat option"
  datatype' :: "nat option"
  width :: "nat option"
  height :: "nat option"
  x :: "int option"
  y :: "int option"
  repetition :: "'rep repetition_t option"
  is_square :: bool

record 'rep Polygon =
  layer :: "nat option"
  datatype' :: "nat option"
  x :: "int option"
  y :: "int option"
  repetition :: "'rep repetition_t option"
  point_list :: "point_list_t option"

record 'rep Path =
  layer :: "nat option"
  datatype' :: "nat option"
  x :: "int option"
  y :: "int option"
  repetition :: "'rep repetition_t option"
  point_list :: "point_list_t option"
  half_width :: "nat option"
  extension_start :: "pathextension_t option"
  extension_end :: "pathextension_t option"

record 'rep Trapezoid =
  layer :: "nat option"
  datatype' :: "nat option"
  width :: "nat option"
  height :: "nat option"
  x :: "int option"
  y :: "int option"
  repetition :: "'rep repetition_t option"
  delta_a :: int
  delta_b :: int
  is_vertical :: bool

record 'rep CTrapezoid =
  ctrapezoid_type :: "nat option"
  layer :: "nat option"
  datatype' :: "nat option"
  width :: "nat option"
  height :: "nat option"
  x :: "int option"
  y :: "int option"
  repetition :: "'rep repetition_t option"

record 'rep Circle =
  layer :: "nat option"
  datatype' :: "nat option"
  x :: "int option"
  y :: "int option"
  repetition :: "'rep repetition_t option"
  radius :: "nat option"

text \<open>A value of the abstract class \<^verbatim>\<open>Record\<close> is a value of one of its subclasses.\<close>

datatype ('rep, 'pv, 'ot, 'val) Record =
    R_Pad
  | R_XYMode XYMode
  | R_Start "'ot Start"
  | R_End "('ot, 'val) End"
  | R_CBlock CBlock
  | R_CellName CellName
  | R_PropName PropName
  | R_TextString TextString
  | R_PropString PropString
  | R_LayerName LayerName
  | R_Property "'pv Property"
  | R_XName XName
  | R_XElement XElement
  | R_XGeometry "'rep XGeometry"
  | R_Cell Cell
  | R_Placement "'rep Placement"
  | R_Text "'rep Text"
  | R_Rectangle "'rep Rectangle"
  | R_Polygon "'rep Polygon"
  | R_Path "'rep Path"
  | R_Trapezoid "'rep Trapezoid"
  | R_CTrapezoid "'rep CTrapezoid"
  | R_Circle "'rep Circle"

section \<open>Merging records with the modal variables\<close>

text \<open>
  \<^verbatim>\<open>merge_with_modals\<close> and \<^verbatim>\<open>deduplicate_with_modals\<close> of each class whose records
  use the modal variables.  The calls are in the order of the source; each result is
  the record and the modals after the last call.  A raise ends the sequence, and what
  the calls before it had stored in the record and in the modals is not kept: the
  record is discarded, and so is the bank.
\<close>

definition XGeometry_merge_with_modals ::
  "'rep XGeometry \<Rightarrow> ('rep, 'pv) Modals \<Rightarrow> error + ('rep XGeometry \<times> ('rep, 'pv) Modals)" where
  "XGeometry_merge_with_modals self modals =
     ebind (adjust_coordinates (xy_relative modals) (XGeometry.x self, XGeometry.y self)
              (geometry_x modals, geometry_y modals)) (\<lambda>((x', y'), (mx', my')).
     ebind (adjust_repetition (XGeometry.repetition self) (Modals.repetition modals))
            (\<lambda>(rep', mrep').
     ebind (adjust_field ''layer'' (XGeometry.layer self) (Present (Modals.layer modals))) (\<lambda>(r1, m1).
     ebind (adjust_field ''datatype'' (XGeometry.datatype' self) (Present (Modals.datatype' modals)))
            (\<lambda>(r2, m2).
     Inr (self\<lparr>XGeometry.x := x', XGeometry.y := y', XGeometry.repetition := rep',
               XGeometry.layer := r1, XGeometry.datatype' := r2\<rparr>,
          modals\<lparr>geometry_x := mx', geometry_y := my', Modals.repetition := mrep',
                 Modals.layer := m1, Modals.datatype' := m2\<rparr>)))))"

definition Placement_merge_with_modals ::
  "'rep Placement \<Rightarrow> ('rep, 'pv) Modals \<Rightarrow> error + ('rep Placement \<times> ('rep, 'pv) Modals)" where
  "Placement_merge_with_modals self modals =
     ebind (adjust_coordinates (xy_relative modals) (Placement.x self, Placement.y self)
              (placement_x modals, placement_y modals)) (\<lambda>((x', y'), (mx', my')).
     ebind (adjust_repetition (Placement.repetition self) (Modals.repetition modals))
            (\<lambda>(rep', mrep').
     ebind (adjust_field ''placement_cell'' (Placement.name self) (Present (placement_cell modals)))
            (\<lambda>(r1, m1).
     Inr (self\<lparr>Placement.x := x', Placement.y := y', Placement.repetition := rep',
               Placement.name := r1\<rparr>,
          modals\<lparr>placement_x := mx', placement_y := my', Modals.repetition := mrep',
                 placement_cell := m1\<rparr>))))"

definition Text_merge_with_modals ::
  "'rep Text \<Rightarrow> ('rep, 'pv) Modals \<Rightarrow> error + ('rep Text \<times> ('rep, 'pv) Modals)" where
  "Text_merge_with_modals self modals =
     ebind (adjust_coordinates (xy_relative modals) (Text.x self, Text.y self)
              (text_x modals, text_y modals)) (\<lambda>((x', y'), (mx', my')).
     ebind (adjust_repetition (Text.repetition self) (Modals.repetition modals))
            (\<lambda>(rep', mrep').
     ebind (adjust_field ''text_string'' (Text.string self) (Present (text_string modals)))
            (\<lambda>(r1, m1).
     ebind (adjust_field ''text_layer'' (Text.layer self) (Present (text_layer modals))) (\<lambda>(r2, m2).
     ebind (adjust_field ''text_datatype'' (Text.datatype' self) (Present (text_datatype modals)))
            (\<lambda>(r3, m3).
     Inr (self\<lparr>Text.x := x', Text.y := y', Text.repetition := rep', Text.string := r1,
               Text.layer := r2, Text.datatype' := r3\<rparr>,
          modals\<lparr>text_x := mx', text_y := my', Modals.repetition := mrep', text_string := m1,
                 text_layer := m2, text_datatype := m3\<rparr>))))))"

definition Polygon_merge_with_modals ::
  "'rep Polygon \<Rightarrow> ('rep, 'pv) Modals \<Rightarrow> error + ('rep Polygon \<times> ('rep, 'pv) Modals)" where
  "Polygon_merge_with_modals self modals =
     ebind (adjust_coordinates (xy_relative modals) (Polygon.x self, Polygon.y self)
              (geometry_x modals, geometry_y modals)) (\<lambda>((x', y'), (mx', my')).
     ebind (adjust_repetition (Polygon.repetition self) (Modals.repetition modals))
            (\<lambda>(rep', mrep').
     ebind (adjust_field ''layer'' (Polygon.layer self) (Present (Modals.layer modals))) (\<lambda>(r1, m1).
     ebind (adjust_field ''datatype'' (Polygon.datatype' self) (Present (Modals.datatype' modals)))
            (\<lambda>(r2, m2).
     ebind (adjust_field ''polygon_point_list'' (Polygon.point_list self)
              (Present (polygon_point_list modals))) (\<lambda>(r3, m3).
     Inr (self\<lparr>Polygon.x := x', Polygon.y := y', Polygon.repetition := rep', Polygon.layer := r1,
               Polygon.datatype' := r2, Polygon.point_list := r3\<rparr>,
          modals\<lparr>geometry_x := mx', geometry_y := my', Modals.repetition := mrep',
                 Modals.layer := m1, Modals.datatype' := m2, polygon_point_list := m3\<rparr>))))))"

definition Path_merge_with_modals ::
  "'rep Path \<Rightarrow> ('rep, 'pv) Modals \<Rightarrow> error + ('rep Path \<times> ('rep, 'pv) Modals)" where
  "Path_merge_with_modals self modals =
     ebind (adjust_coordinates (xy_relative modals) (Path.x self, Path.y self)
              (geometry_x modals, geometry_y modals)) (\<lambda>((x', y'), (mx', my')).
     ebind (adjust_repetition (Path.repetition self) (Modals.repetition modals))
            (\<lambda>(rep', mrep').
     ebind (adjust_field ''layer'' (Path.layer self) (Present (Modals.layer modals))) (\<lambda>(r1, m1).
     ebind (adjust_field ''datatype'' (Path.datatype' self) (Present (Modals.datatype' modals)))
            (\<lambda>(r2, m2).
     ebind (adjust_field ''path_point_list'' (Path.point_list self) (Present (path_point_list modals)))
            (\<lambda>(r3, m3).
     ebind (adjust_field ''path_half_width'' (Path.half_width self)
              (path_half_width modals)) (\<lambda>(r4, m4).
     ebind (adjust_field ''path_extension_start'' (Path.extension_start self)
              (Present (path_extension_start modals))) (\<lambda>(r5, m5).
     ebind (adjust_field ''path_extension_end'' (Path.extension_end self)
              (Present (path_extension_end modals))) (\<lambda>(r6, m6).
     Inr (self\<lparr>Path.x := x', Path.y := y', Path.repetition := rep', Path.layer := r1,
               Path.datatype' := r2, Path.point_list := r3, Path.half_width := r4,
               Path.extension_start := r5, Path.extension_end := r6\<rparr>,
          modals\<lparr>geometry_x := mx', geometry_y := my', Modals.repetition := mrep',
                 Modals.layer := m1, Modals.datatype' := m2, path_point_list := m3,
                 path_half_width := Present m4, path_extension_start := m5,
                 path_extension_end := m6\<rparr>)))))))))"

definition Trapezoid_merge_with_modals ::
  "'rep Trapezoid \<Rightarrow> ('rep, 'pv) Modals \<Rightarrow> error + ('rep Trapezoid \<times> ('rep, 'pv) Modals)" where
  "Trapezoid_merge_with_modals self modals =
     ebind (adjust_coordinates (xy_relative modals) (Trapezoid.x self, Trapezoid.y self)
              (geometry_x modals, geometry_y modals)) (\<lambda>((x', y'), (mx', my')).
     ebind (adjust_repetition (Trapezoid.repetition self) (Modals.repetition modals))
            (\<lambda>(rep', mrep').
     ebind (adjust_field ''layer'' (Trapezoid.layer self) (Present (Modals.layer modals))) (\<lambda>(r1, m1).
     ebind (adjust_field ''datatype'' (Trapezoid.datatype' self) (Present (Modals.datatype' modals)))
            (\<lambda>(r2, m2).
     ebind (adjust_field ''geometry_w'' (Trapezoid.width self) (Present (geometry_w modals)))
            (\<lambda>(r3, m3).
     ebind (adjust_field ''geometry_h'' (Trapezoid.height self) (Present (geometry_h modals)))
            (\<lambda>(r4, m4).
     Inr (self\<lparr>Trapezoid.x := x', Trapezoid.y := y', Trapezoid.repetition := rep',
               Trapezoid.layer := r1, Trapezoid.datatype' := r2, Trapezoid.width := r3,
               Trapezoid.height := r4\<rparr>,
          modals\<lparr>geometry_x := mx', geometry_y := my', Modals.repetition := mrep',
                 Modals.layer := m1, Modals.datatype' := m2, geometry_w := m3,
                 geometry_h := m4\<rparr>)))))))"

definition Circle_merge_with_modals ::
  "'rep Circle \<Rightarrow> ('rep, 'pv) Modals \<Rightarrow> error + ('rep Circle \<times> ('rep, 'pv) Modals)" where
  "Circle_merge_with_modals self modals =
     ebind (adjust_coordinates (xy_relative modals) (Circle.x self, Circle.y self)
              (geometry_x modals, geometry_y modals)) (\<lambda>((x', y'), (mx', my')).
     ebind (adjust_repetition (Circle.repetition self) (Modals.repetition modals))
            (\<lambda>(rep', mrep').
     ebind (adjust_field ''layer'' (Circle.layer self) (Present (Modals.layer modals))) (\<lambda>(r1, m1).
     ebind (adjust_field ''datatype'' (Circle.datatype' self) (Present (Modals.datatype' modals)))
            (\<lambda>(r2, m2).
     ebind (adjust_field ''circle_radius'' (Circle.radius self) (Present (circle_radius modals)))
            (\<lambda>(r3, m3).
     Inr (self\<lparr>Circle.x := x', Circle.y := y', Circle.repetition := rep', Circle.layer := r1,
               Circle.datatype' := r2, Circle.radius := r3\<rparr>,
          modals\<lparr>geometry_x := mx', geometry_y := my', Modals.repetition := mrep',
                 Modals.layer := m1, Modals.datatype' := m2, circle_radius := m3\<rparr>))))))"

definition XGeometry_deduplicate_with_modals ::
  "'rep XGeometry \<Rightarrow> ('rep, 'pv) Modals \<Rightarrow> error + ('rep XGeometry \<times> ('rep, 'pv) Modals)" where
  "XGeometry_deduplicate_with_modals self modals =
     ebind (dedup_coordinates (xy_relative modals) (XGeometry.x self, XGeometry.y self)
              (geometry_x modals, geometry_y modals)) (\<lambda>((x', y'), (mx', my')).
     ebind (dedup_repetition (XGeometry.repetition self) (Modals.repetition modals))
            (\<lambda>(rep', mrep').
     ebind (dedup_field (XGeometry.layer self) (Present (Modals.layer modals))) (\<lambda>(r1, m1).
     ebind (dedup_field (XGeometry.datatype' self) (Present (Modals.datatype' modals))) (\<lambda>(r2, m2).
     Inr (self\<lparr>XGeometry.x := x', XGeometry.y := y', XGeometry.repetition := rep',
               XGeometry.layer := r1, XGeometry.datatype' := r2\<rparr>,
          modals\<lparr>geometry_x := mx', geometry_y := my', Modals.repetition := mrep',
                 Modals.layer := m1, Modals.datatype' := m2\<rparr>)))))"

definition Placement_deduplicate_with_modals ::
  "'rep Placement \<Rightarrow> ('rep, 'pv) Modals \<Rightarrow> error + ('rep Placement \<times> ('rep, 'pv) Modals)" where
  "Placement_deduplicate_with_modals self modals =
     ebind (dedup_coordinates (xy_relative modals) (Placement.x self, Placement.y self)
              (placement_x modals, placement_y modals)) (\<lambda>((x', y'), (mx', my')).
     ebind (dedup_repetition (Placement.repetition self) (Modals.repetition modals))
            (\<lambda>(rep', mrep').
     ebind (dedup_field (Placement.name self) (Present (placement_cell modals))) (\<lambda>(r1, m1).
     Inr (self\<lparr>Placement.x := x', Placement.y := y', Placement.repetition := rep',
               Placement.name := r1\<rparr>,
          modals\<lparr>placement_x := mx', placement_y := my', Modals.repetition := mrep',
                 placement_cell := m1\<rparr>))))"

definition Text_deduplicate_with_modals ::
  "'rep Text \<Rightarrow> ('rep, 'pv) Modals \<Rightarrow> error + ('rep Text \<times> ('rep, 'pv) Modals)" where
  "Text_deduplicate_with_modals self modals =
     ebind (dedup_coordinates (xy_relative modals) (Text.x self, Text.y self)
              (text_x modals, text_y modals)) (\<lambda>((x', y'), (mx', my')).
     ebind (dedup_repetition (Text.repetition self) (Modals.repetition modals))
            (\<lambda>(rep', mrep').
     ebind (dedup_field (Text.string self) (Present (text_string modals))) (\<lambda>(r1, m1).
     ebind (dedup_field (Text.layer self) (Present (text_layer modals))) (\<lambda>(r2, m2).
     ebind (dedup_field (Text.datatype' self) (Present (text_datatype modals))) (\<lambda>(r3, m3).
     Inr (self\<lparr>Text.x := x', Text.y := y', Text.repetition := rep', Text.string := r1,
               Text.layer := r2, Text.datatype' := r3\<rparr>,
          modals\<lparr>text_x := mx', text_y := my', Modals.repetition := mrep', text_string := m1,
                 text_layer := m2, text_datatype := m3\<rparr>))))))"

definition Polygon_deduplicate_with_modals ::
  "'rep Polygon \<Rightarrow> ('rep, 'pv) Modals \<Rightarrow> error + ('rep Polygon \<times> ('rep, 'pv) Modals)" where
  "Polygon_deduplicate_with_modals self modals =
     ebind (dedup_coordinates (xy_relative modals) (Polygon.x self, Polygon.y self)
              (geometry_x modals, geometry_y modals)) (\<lambda>((x', y'), (mx', my')).
     ebind (dedup_repetition (Polygon.repetition self) (Modals.repetition modals))
            (\<lambda>(rep', mrep').
     ebind (dedup_field (Polygon.layer self) (Present (Modals.layer modals))) (\<lambda>(r1, m1).
     ebind (dedup_field (Polygon.datatype' self) (Present (Modals.datatype' modals))) (\<lambda>(r2, m2).
     ebind (dedup_field (Polygon.point_list self) (Present (polygon_point_list modals))) (\<lambda>(r3, m3).
     Inr (self\<lparr>Polygon.x := x', Polygon.y := y', Polygon.repetition := rep', Polygon.layer := r1,
               Polygon.datatype' := r2, Polygon.point_list := r3\<rparr>,
          modals\<lparr>geometry_x := mx', geometry_y := my', Modals.repetition := mrep',
                 Modals.layer := m1, Modals.datatype' := m2, polygon_point_list := m3\<rparr>))))))"

definition Path_deduplicate_with_modals ::
  "'rep Path \<Rightarrow> ('rep, 'pv) Modals \<Rightarrow> error + ('rep Path \<times> ('rep, 'pv) Modals)" where
  "Path_deduplicate_with_modals self modals =
     ebind (dedup_coordinates (xy_relative modals) (Path.x self, Path.y self)
              (geometry_x modals, geometry_y modals)) (\<lambda>((x', y'), (mx', my')).
     ebind (dedup_repetition (Path.repetition self) (Modals.repetition modals))
            (\<lambda>(rep', mrep').
     ebind (dedup_field (Path.layer self) (Present (Modals.layer modals))) (\<lambda>(r1, m1).
     ebind (dedup_field (Path.datatype' self) (Present (Modals.datatype' modals))) (\<lambda>(r2, m2).
     ebind (dedup_field (Path.point_list self) (Present (path_point_list modals))) (\<lambda>(r3, m3).
     ebind (dedup_field (Path.half_width self) (path_half_width modals))
            (\<lambda>(r4, m4).
     ebind (dedup_field (Path.extension_start self) (Present (path_extension_start modals)))
            (\<lambda>(r5, m5).
     ebind (dedup_field (Path.extension_end self) (Present (path_extension_end modals))) (\<lambda>(r6, m6).
     Inr (self\<lparr>Path.x := x', Path.y := y', Path.repetition := rep', Path.layer := r1,
               Path.datatype' := r2, Path.point_list := r3, Path.half_width := r4,
               Path.extension_start := r5, Path.extension_end := r6\<rparr>,
          modals\<lparr>geometry_x := mx', geometry_y := my', Modals.repetition := mrep',
                 Modals.layer := m1, Modals.datatype' := m2, path_point_list := m3,
                 path_half_width := Present m4, path_extension_start := m5,
                 path_extension_end := m6\<rparr>)))))))))"

definition Trapezoid_deduplicate_with_modals ::
  "'rep Trapezoid \<Rightarrow> ('rep, 'pv) Modals \<Rightarrow> error + ('rep Trapezoid \<times> ('rep, 'pv) Modals)" where
  "Trapezoid_deduplicate_with_modals self modals =
     ebind (dedup_coordinates (xy_relative modals) (Trapezoid.x self, Trapezoid.y self)
              (geometry_x modals, geometry_y modals)) (\<lambda>((x', y'), (mx', my')).
     ebind (dedup_repetition (Trapezoid.repetition self) (Modals.repetition modals))
            (\<lambda>(rep', mrep').
     ebind (dedup_field (Trapezoid.layer self) (Present (Modals.layer modals))) (\<lambda>(r1, m1).
     ebind (dedup_field (Trapezoid.datatype' self) (Present (Modals.datatype' modals))) (\<lambda>(r2, m2).
     ebind (dedup_field (Trapezoid.width self) (Present (geometry_w modals))) (\<lambda>(r3, m3).
     ebind (dedup_field (Trapezoid.height self) (Present (geometry_h modals))) (\<lambda>(r4, m4).
     Inr (self\<lparr>Trapezoid.x := x', Trapezoid.y := y', Trapezoid.repetition := rep',
               Trapezoid.layer := r1, Trapezoid.datatype' := r2, Trapezoid.width := r3,
               Trapezoid.height := r4\<rparr>,
          modals\<lparr>geometry_x := mx', geometry_y := my', Modals.repetition := mrep',
                 Modals.layer := m1, Modals.datatype' := m2, geometry_w := m3,
                 geometry_h := m4\<rparr>)))))))"

definition Circle_deduplicate_with_modals ::
  "'rep Circle \<Rightarrow> ('rep, 'pv) Modals \<Rightarrow> error + ('rep Circle \<times> ('rep, 'pv) Modals)" where
  "Circle_deduplicate_with_modals self modals =
     ebind (dedup_coordinates (xy_relative modals) (Circle.x self, Circle.y self)
              (geometry_x modals, geometry_y modals)) (\<lambda>((x', y'), (mx', my')).
     ebind (dedup_repetition (Circle.repetition self) (Modals.repetition modals))
            (\<lambda>(rep', mrep').
     ebind (dedup_field (Circle.layer self) (Present (Modals.layer modals))) (\<lambda>(r1, m1).
     ebind (dedup_field (Circle.datatype' self) (Present (Modals.datatype' modals))) (\<lambda>(r2, m2).
     ebind (dedup_field (Circle.radius self) (Present (circle_radius modals))) (\<lambda>(r3, m3).
     Inr (self\<lparr>Circle.x := x', Circle.y := y', Circle.repetition := rep', Circle.layer := r1,
               Circle.datatype' := r2, Circle.radius := r3\<rparr>,
          modals\<lparr>geometry_x := mx', geometry_y := my', Modals.repetition := mrep',
                 Modals.layer := m1, Modals.datatype' := m2, circle_radius := m3\<rparr>))))))"

definition Property_merge_with_modals ::
  "'pv Property \<Rightarrow> ('rep, 'pv) Modals \<Rightarrow> error + ('pv Property \<times> ('rep, 'pv) Modals)" where
  "Property_merge_with_modals self modals =
     ebind (adjust_field ''property_name'' (Property.name self) (Present (property_name modals)))
            (\<lambda>(r1, m1).
     ebind (adjust_field ''property_value_list'' (Property.values' self)
              (Present (property_value_list modals))) (\<lambda>(r2, m2).
     ebind (adjust_field ''property_is_standard'' (Property.is_standard self)
              (Present (property_is_standard modals))) (\<lambda>(r3, m3).
     Inr (self\<lparr>Property.name := r1, Property.values' := r2, Property.is_standard := r3\<rparr>,
          modals\<lparr>property_name := m1, property_value_list := m2, property_is_standard := m3\<rparr>))))"

definition Property_deduplicate_with_modals ::
  "'pv Property \<Rightarrow> ('rep, 'pv) Modals \<Rightarrow> error + ('pv Property \<times> ('rep, 'pv) Modals)" where
  "Property_deduplicate_with_modals self modals =
     ebind (dedup_field (Property.name self) (Present (property_name modals))) (\<lambda>(r1, m1).
     ebind (dedup_field (Property.values' self) (Present (property_value_list modals))) (\<lambda>(r2, m2).
     ebind (if r2 = None \<and> r1 = None
            then dedup_field (Property.is_standard self) (Present (property_is_standard modals))
            else Inr (Property.is_standard self, property_is_standard modals)) (\<lambda>(r3, m3).
     Inr (self\<lparr>Property.name := r1, Property.values' := r2, Property.is_standard := r3\<rparr>,
          modals\<lparr>property_name := m1, property_value_list := m2, property_is_standard := m3\<rparr>))))"

text \<open>For a square, the second call on the width is on the width that the first call
  left, against \<open>geometry_h\<close>; the height is not touched.\<close>

definition Rectangle_merge_with_modals ::
  "'rep Rectangle \<Rightarrow> ('rep, 'pv) Modals \<Rightarrow> error + ('rep Rectangle \<times> ('rep, 'pv) Modals)" where
  "Rectangle_merge_with_modals self modals =
     ebind (adjust_coordinates (xy_relative modals) (Rectangle.x self, Rectangle.y self)
              (geometry_x modals, geometry_y modals)) (\<lambda>((x', y'), (mx', my')).
     ebind (adjust_repetition (Rectangle.repetition self) (Modals.repetition modals))
            (\<lambda>(rep', mrep').
     ebind (adjust_field ''layer'' (Rectangle.layer self) (Present (Modals.layer modals))) (\<lambda>(r1, m1).
     ebind (adjust_field ''datatype'' (Rectangle.datatype' self) (Present (Modals.datatype' modals)))
            (\<lambda>(r2, m2).
     ebind (adjust_field ''geometry_w'' (Rectangle.width self) (Present (geometry_w modals)))
            (\<lambda>(w1, mw).
     ebind (if Rectangle.is_square self
            then ebind (adjust_field ''geometry_h'' w1 (Present (geometry_h modals))) (\<lambda>(w2, mh).
                   Inr (w2, Rectangle.height self, mh))
            else ebind (adjust_field ''geometry_h'' (Rectangle.height self) (Present (geometry_h modals))) (\<lambda>(h1, mh).
                   Inr (w1, h1, mh))) (\<lambda>(w', h', mh').
     Inr (self\<lparr>Rectangle.x := x', Rectangle.y := y', Rectangle.repetition := rep',
               Rectangle.layer := r1, Rectangle.datatype' := r2,
               Rectangle.width := w', Rectangle.height := h'\<rparr>,
          modals\<lparr>geometry_x := mx', geometry_y := my', Modals.repetition := mrep',
                 Modals.layer := m1, Modals.datatype' := m2,
                 geometry_w := mw, geometry_h := mh'\<rparr>)))))))"

definition Rectangle_deduplicate_with_modals ::
  "'rep Rectangle \<Rightarrow> ('rep, 'pv) Modals \<Rightarrow> error + ('rep Rectangle \<times> ('rep, 'pv) Modals)" where
  "Rectangle_deduplicate_with_modals self modals =
     ebind (dedup_coordinates (xy_relative modals) (Rectangle.x self, Rectangle.y self)
              (geometry_x modals, geometry_y modals)) (\<lambda>((x', y'), (mx', my')).
     ebind (dedup_repetition (Rectangle.repetition self) (Modals.repetition modals))
            (\<lambda>(rep', mrep').
     ebind (dedup_field (Rectangle.layer self) (Present (Modals.layer modals))) (\<lambda>(r1, m1).
     ebind (dedup_field (Rectangle.datatype' self) (Present (Modals.datatype' modals))) (\<lambda>(r2, m2).
     ebind (dedup_field (Rectangle.width self) (Present (geometry_w modals))) (\<lambda>(w1, mw).
     ebind (if Rectangle.is_square self
            then ebind (dedup_field w1 (Present (geometry_h modals))) (\<lambda>(w2, mh).
                   Inr (w2, Rectangle.height self, mh))
            else ebind (dedup_field (Rectangle.height self) (Present (geometry_h modals))) (\<lambda>(h1, mh).
                   Inr (w1, h1, mh))) (\<lambda>(w', h', mh').
     Inr (self\<lparr>Rectangle.x := x', Rectangle.y := y', Rectangle.repetition := rep',
               Rectangle.layer := r1, Rectangle.datatype' := r2,
               Rectangle.width := w', Rectangle.height := h'\<rparr>,
          modals\<lparr>geometry_x := mx', geometry_y := my', Modals.repetition := mrep',
                 Modals.layer := m1, Modals.datatype' := m2,
                 geometry_w := mw, geometry_h := mh'\<rparr>)))))))"

text \<open>\<^verbatim>\<open>CTrapezoid\<close>: the tests on the type are on the type that the record holds when
  they run.  In \<^verbatim>\<open>deduplicate_with_modals\<close> the width and the height are deduplicated
  before the type, and again after it when the type does not forbid them.\<close>

definition CTrapezoid_merge_with_modals ::
  "'rep CTrapezoid \<Rightarrow> ('rep, 'pv) Modals \<Rightarrow> error + ('rep CTrapezoid \<times> ('rep, 'pv) Modals)" where
  "CTrapezoid_merge_with_modals self modals =
     ebind (adjust_coordinates (xy_relative modals) (CTrapezoid.x self, CTrapezoid.y self)
              (geometry_x modals, geometry_y modals)) (\<lambda>((x', y'), (mx', my')).
     ebind (adjust_repetition (CTrapezoid.repetition self) (Modals.repetition modals))
            (\<lambda>(rep', mrep').
     ebind (adjust_field ''layer'' (CTrapezoid.layer self) (Present (Modals.layer modals)))
            (\<lambda>(r1, m1).
     ebind (adjust_field ''datatype'' (CTrapezoid.datatype' self) (Present (Modals.datatype' modals)))
            (\<lambda>(r2, m2).
     ebind (adjust_field ''ctrapezoid_type'' (CTrapezoid.ctrapezoid_type self)
              (Present (Modals.ctrapezoid_type modals))) (\<lambda>(t1, mt).
     ebind (if t1 \<in> {Some 20, Some 21}
            then (if CTrapezoid.width self \<noteq> None
                  then Inl (InvalidDataError ''CTrapezoid has spurious width entry: '')
                  else Inr (CTrapezoid.width self, geometry_w modals))
            else adjust_field ''geometry_w'' (CTrapezoid.width self) (Present (geometry_w modals))) (\<lambda>(w1, mw).
     ebind (if t1 \<in> {Some 16, Some 17, Some 18, Some 19, Some 22, Some 23, Some 25}
            then (if CTrapezoid.height self \<noteq> None
                  then Inl (InvalidDataError ''CTrapezoid has spurious height entry: '')
                  else Inr (CTrapezoid.height self, geometry_h modals))
            else adjust_field ''geometry_h'' (CTrapezoid.height self) (Present (geometry_h modals))) (\<lambda>(h1, mh).
     Inr (self\<lparr>CTrapezoid.x := x', CTrapezoid.y := y', CTrapezoid.repetition := rep',
               CTrapezoid.layer := r1, CTrapezoid.datatype' := r2,
               CTrapezoid.ctrapezoid_type := t1, CTrapezoid.width := w1, CTrapezoid.height := h1\<rparr>,
          modals\<lparr>geometry_x := mx', geometry_y := my', Modals.repetition := mrep',
                 Modals.layer := m1, Modals.datatype' := m2,
                 Modals.ctrapezoid_type := mt, geometry_w := mw, geometry_h := mh\<rparr>))))))))"

definition CTrapezoid_deduplicate_with_modals ::
  "'rep CTrapezoid \<Rightarrow> ('rep, 'pv) Modals \<Rightarrow> error + ('rep CTrapezoid \<times> ('rep, 'pv) Modals)" where
  "CTrapezoid_deduplicate_with_modals self modals =
     ebind (dedup_coordinates (xy_relative modals) (CTrapezoid.x self, CTrapezoid.y self)
              (geometry_x modals, geometry_y modals)) (\<lambda>((x', y'), (mx', my')).
     ebind (dedup_repetition (CTrapezoid.repetition self) (Modals.repetition modals))
            (\<lambda>(rep', mrep').
     ebind (dedup_field (CTrapezoid.layer self) (Present (Modals.layer modals))) (\<lambda>(r1, m1).
     ebind (dedup_field (CTrapezoid.datatype' self) (Present (Modals.datatype' modals))) (\<lambda>(r2, m2).
     ebind (dedup_field (CTrapezoid.width self) (Present (geometry_w modals))) (\<lambda>(w1, mw1).
     ebind (dedup_field (CTrapezoid.height self) (Present (geometry_h modals))) (\<lambda>(h1, mh1).
     ebind (dedup_field (CTrapezoid.ctrapezoid_type self) (Present (Modals.ctrapezoid_type modals)))
            (\<lambda>(t1, mt).
     ebind (if t1 \<in> {Some 20, Some 21}
            then (if w1 \<noteq> None
                  then Inl (InvalidDataError ''CTrapezoid has spurious width entry: '')
                  else Inr (w1, mw1))
            else dedup_field w1 (Present mw1)) (\<lambda>(w2, mw2).
     ebind (if t1 \<in> {Some 16, Some 17, Some 18, Some 19, Some 22, Some 23, Some 25}
            then (if h1 \<noteq> None
                  then Inl (InvalidDataError ''CTrapezoid has spurious height entry: '')
                  else Inr (h1, mh1))
            else dedup_field h1 (Present mh1)) (\<lambda>(h2, mh2).
     Inr (self\<lparr>CTrapezoid.x := x', CTrapezoid.y := y', CTrapezoid.repetition := rep',
               CTrapezoid.layer := r1, CTrapezoid.datatype' := r2,
               CTrapezoid.ctrapezoid_type := t1, CTrapezoid.width := w2, CTrapezoid.height := h2\<rparr>,
          modals\<lparr>geometry_x := mx', geometry_y := my', Modals.repetition := mrep',
                 Modals.layer := m1, Modals.datatype' := m2,
                 Modals.ctrapezoid_type := mt, geometry_w := mw2, geometry_h := mh2\<rparr>))))))))))"

text \<open>The method call \<^verbatim>\<open>record.merge_with_modals(modals)\<close> on a record of any class.\<close>

fun merge_with_modals ::
  "('rep, 'pv, 'ot, 'val) Record \<Rightarrow> ('rep, 'pv) Modals
     \<Rightarrow> error + (('rep, 'pv, 'ot, 'val) Record \<times> ('rep, 'pv) Modals)" where
  "merge_with_modals R_Pad modals = Inr (R_Pad, modals)"
| "merge_with_modals (R_XYMode self) modals =
     Inr (R_XYMode self, modals\<lparr>xy_relative := XYMode.relative self\<rparr>)"
| "merge_with_modals (R_Start self) modals = Inr (R_Start self, reset modals)"
| "merge_with_modals (R_End self) modals = Inr (R_End self, modals)"
| "merge_with_modals (R_CBlock self) modals = Inr (R_CBlock self, modals)"
| "merge_with_modals (R_CellName self) modals = Inr (R_CellName self, reset modals)"
| "merge_with_modals (R_PropName self) modals = Inr (R_PropName self, reset modals)"
| "merge_with_modals (R_TextString self) modals = Inr (R_TextString self, reset modals)"
| "merge_with_modals (R_PropString self) modals = Inr (R_PropString self, reset modals)"
| "merge_with_modals (R_LayerName self) modals = Inr (R_LayerName self, reset modals)"
| "merge_with_modals (R_Property self) modals =
     ebind (Property_merge_with_modals self modals) (\<lambda>(r, m). Inr (R_Property r, m))"
| "merge_with_modals (R_XName self) modals = Inr (R_XName self, reset modals)"
| "merge_with_modals (R_XElement self) modals = Inr (R_XElement self, modals)"
| "merge_with_modals (R_XGeometry self) modals =
     ebind (XGeometry_merge_with_modals self modals) (\<lambda>(r, m). Inr (R_XGeometry r, m))"
| "merge_with_modals (R_Cell self) modals = Inr (R_Cell self, reset modals)"
| "merge_with_modals (R_Placement self) modals =
     ebind (Placement_merge_with_modals self modals) (\<lambda>(r, m). Inr (R_Placement r, m))"
| "merge_with_modals (R_Text self) modals =
     ebind (Text_merge_with_modals self modals) (\<lambda>(r, m). Inr (R_Text r, m))"
| "merge_with_modals (R_Rectangle self) modals =
     ebind (Rectangle_merge_with_modals self modals) (\<lambda>(r, m). Inr (R_Rectangle r, m))"
| "merge_with_modals (R_Polygon self) modals =
     ebind (Polygon_merge_with_modals self modals) (\<lambda>(r, m). Inr (R_Polygon r, m))"
| "merge_with_modals (R_Path self) modals =
     ebind (Path_merge_with_modals self modals) (\<lambda>(r, m). Inr (R_Path r, m))"
| "merge_with_modals (R_Trapezoid self) modals =
     ebind (Trapezoid_merge_with_modals self modals) (\<lambda>(r, m). Inr (R_Trapezoid r, m))"
| "merge_with_modals (R_CTrapezoid self) modals =
     ebind (CTrapezoid_merge_with_modals self modals) (\<lambda>(r, m). Inr (R_CTrapezoid r, m))"
| "merge_with_modals (R_Circle self) modals =
     ebind (Circle_merge_with_modals self modals) (\<lambda>(r, m). Inr (R_Circle r, m))"

fun deduplicate_with_modals ::
  "('rep, 'pv, 'ot, 'val) Record \<Rightarrow> ('rep, 'pv) Modals
     \<Rightarrow> error + (('rep, 'pv, 'ot, 'val) Record \<times> ('rep, 'pv) Modals)" where
  "deduplicate_with_modals R_Pad modals = Inr (R_Pad, modals)"
| "deduplicate_with_modals (R_XYMode self) modals = Inr (R_XYMode self, modals)"
| "deduplicate_with_modals (R_Start self) modals = Inr (R_Start self, reset modals)"
| "deduplicate_with_modals (R_End self) modals = Inr (R_End self, modals)"
| "deduplicate_with_modals (R_CBlock self) modals = Inr (R_CBlock self, modals)"
| "deduplicate_with_modals (R_CellName self) modals = Inr (R_CellName self, reset modals)"
| "deduplicate_with_modals (R_PropName self) modals = Inr (R_PropName self, reset modals)"
| "deduplicate_with_modals (R_TextString self) modals = Inr (R_TextString self, reset modals)"
| "deduplicate_with_modals (R_PropString self) modals = Inr (R_PropString self, reset modals)"
| "deduplicate_with_modals (R_LayerName self) modals = Inr (R_LayerName self, reset modals)"
| "deduplicate_with_modals (R_Property self) modals =
     ebind (Property_deduplicate_with_modals self modals) (\<lambda>(r, m). Inr (R_Property r, m))"
| "deduplicate_with_modals (R_XName self) modals = Inr (R_XName self, reset modals)"
| "deduplicate_with_modals (R_XElement self) modals = Inr (R_XElement self, modals)"
| "deduplicate_with_modals (R_XGeometry self) modals =
     ebind (XGeometry_deduplicate_with_modals self modals)
            (\<lambda>(r, m). Inr (R_XGeometry r, m))"
| "deduplicate_with_modals (R_Cell self) modals = Inr (R_Cell self, reset modals)"
| "deduplicate_with_modals (R_Placement self) modals =
     ebind (Placement_deduplicate_with_modals self modals)
            (\<lambda>(r, m). Inr (R_Placement r, m))"
| "deduplicate_with_modals (R_Text self) modals =
     ebind (Text_deduplicate_with_modals self modals) (\<lambda>(r, m). Inr (R_Text r, m))"
| "deduplicate_with_modals (R_Rectangle self) modals =
     ebind (Rectangle_deduplicate_with_modals self modals)
            (\<lambda>(r, m). Inr (R_Rectangle r, m))"
| "deduplicate_with_modals (R_Polygon self) modals =
     ebind (Polygon_deduplicate_with_modals self modals) (\<lambda>(r, m). Inr (R_Polygon r, m))"
| "deduplicate_with_modals (R_Path self) modals =
     ebind (Path_deduplicate_with_modals self modals) (\<lambda>(r, m). Inr (R_Path r, m))"
| "deduplicate_with_modals (R_Trapezoid self) modals =
     ebind (Trapezoid_deduplicate_with_modals self modals)
            (\<lambda>(r, m). Inr (R_Trapezoid r, m))"
| "deduplicate_with_modals (R_CTrapezoid self) modals =
     ebind (CTrapezoid_deduplicate_with_modals self modals)
            (\<lambda>(r, m). Inr (R_CTrapezoid r, m))"
| "deduplicate_with_modals (R_Circle self) modals =
     ebind (Circle_deduplicate_with_modals self modals) (\<lambda>(r, m). Inr (R_Circle r, m))"

section \<open>Byte-stream primitives\<close>

text \<open>
  The primitives are imported from \<^verbatim>\<open>basic.py\<close>.  A writer is modelled by the bytes it
  appends to the stream (the size it returns is their number), a reader by a function
  from the bytes left in the stream to the value read and the bytes left after it.
\<close>

type_synonym 'a reader = "byte list \<Rightarrow> error + ('a \<times> byte list)"

definition rbind :: "'a reader \<Rightarrow> ('a \<Rightarrow> 'b reader) \<Rightarrow> 'b reader" where
  "rbind rd f stream = (case rd stream of Inl e \<Rightarrow> Inl e | Inr (a, rest) \<Rightarrow> f a rest)"

definition rreturn :: "'a \<Rightarrow> 'a reader" where
  "rreturn a stream = Inr (a, stream)"

text \<open>\<^verbatim>\<open>if flag: optional[key] = read(stream)\<close>: the key is left out, that is the
  constructor's default \<^verbatim>\<open>None\<close> is used, when the flag is clear.\<close>

definition read_if :: "bool \<Rightarrow> 'a reader \<Rightarrow> 'a option reader" where
  "read_if flag rd = (if flag then rbind rd (\<lambda>v. rreturn (Some v)) else rreturn None)"

text \<open>Modelled from the spec: \<^verbatim>\<open>write_uint\<close> of \<^verbatim>\<open>basic.py\<close>, a little-endian base-128
  variable-length unsigned integer with the continuation bit in the most significant
  bit of each byte.\<close>

function write_uint :: "nat \<Rightarrow> byte list" where
  "write_uint n =
     (if n < 128 then [of_nat n] else of_nat (128 + n mod 128) # write_uint (n div 128))"
  by pat_completeness auto
termination
  by (relation "measure (\<lambda>n. n)") auto

declare write_uint.simps [simp del]

text \<open>Modelled from the spec: \<^verbatim>\<open>read_uint\<close> of \<^verbatim>\<open>basic.py\<close>, the decoder of the same
  encoding; the end of the stream inside an integer is an error.\<close>

fun read_uint :: "nat reader" where
  "read_uint [] = Inl (InvalidDataError ''Unexpected end of stream'')"
| "read_uint (b # bs) =
     (if b < 128 then Inr (unat b, bs)
      else (case read_uint bs of
              Inl e \<Rightarrow> Inl e
            | Inr (n, rest) \<Rightarrow> Inr (unat b - 128 + 128 * n, rest)))"

text \<open>Modelled from the spec: \<^verbatim>\<open>write_sint\<close> and \<^verbatim>\<open>read_sint\<close> of \<^verbatim>\<open>basic.py\<close>, the same
  encoding with the sign in the least significant bit of the decoded value.\<close>

definition write_sint :: "int \<Rightarrow> byte list" where
  "write_sint v = write_uint (2 * nat \<bar>v\<bar> + (if v < 0 then 1 else 0))"

definition read_sint :: "int reader" where
  "read_sint =
     rbind read_uint (\<lambda>n. rreturn (if odd n then - int (n div 2) else int (n div 2)))"

text \<open>Modelled from the spec: \<^verbatim>\<open>read_bstring\<close> of \<^verbatim>\<open>basic.py\<close>, which \<^verbatim>\<open>End.read\<close> calls
  on the padding: the length as an unsigned integer, then that many bytes.\<close>

definition read_bstring :: "byte list reader" where
  "read_bstring =
     rbind read_uint (\<lambda>n stream.
       if length stream < n then Inl (InvalidDataError ''Unexpected end of stream'')
       else Inr (take n stream, drop n stream))"

text \<open>Modelled from the spec: \<^verbatim>\<open>write_bool_byte\<close> and \<^verbatim>\<open>read_bool_byte\<close> of \<^verbatim>\<open>basic.py\<close>,
  one byte of eight flags, the first flag in the most significant bit.\<close>

definition write_bool_byte ::
  "bool \<times> bool \<times> bool \<times> bool \<times> bool \<times> bool \<times> bool \<times> bool \<Rightarrow> byte list" where
  "write_bool_byte bits =
     (case bits of (b7, b6, b5, b4, b3, b2, b1, b0) \<Rightarrow>
        [of_nat (foldl (\<lambda>acc b. 2 * acc + (if b then 1 else 0)) 0
                   [b7, b6, b5, b4, b3, b2, b1, b0])])"

definition read_bool_byte ::
  "(bool \<times> bool \<times> bool \<times> bool \<times> bool \<times> bool \<times> bool \<times> bool) reader" where
  "read_bool_byte stream =
     (case stream of
        [] \<Rightarrow> Inl (InvalidDataError ''Unexpected end of stream'')
      | b # rest \<Rightarrow>
          Inr ((bit b 7, bit b 6, bit b 5, bit b 4, bit b 3, bit b 2, bit b 1, bit b 0), rest))"

text \<open>Modelled from the spec: the values of the enumeration \<^verbatim>\<open>PathExtensionScheme\<close> of
  \<^verbatim>\<open>basic.py\<close>: 1 is \<^verbatim>\<open>Flush\<close>, 2 is \<^verbatim>\<open>HalfWidth\<close>, 3 is \<^verbatim>\<open>Arbitrary\<close> (0 stands for an
  extension left to the modal variable).\<close>

fun scheme_value :: "PathExtensionScheme \<Rightarrow> nat" where
  "scheme_value Flush = 1"
| "scheme_value HalfWidth = 2"
| "scheme_value Arbitrary = 3"

text \<open>\<^verbatim>\<open>if value is not None: size += write(stream, value)\<close>.\<close>

definition write_if :: "('a \<Rightarrow> byte list) \<Rightarrow> 'a option \<Rightarrow> byte list" where
  "write_if wr v = (case v of Some a \<Rightarrow> wr a | None \<Rightarrow> [])"

text \<open>\<^verbatim>\<open>write_sint\<close> on the second component of a path extension, which is \<^verbatim>\<open>None\<close> unless
  the scheme is \<^verbatim>\<open>Arbitrary\<close>: the arithmetic of the encoder on \<^verbatim>\<open>None\<close> raises.\<close>

definition write_sint_opt :: "int option \<Rightarrow> error + byte list" where
  "write_sint_opt v = (case v of Some i \<Rightarrow> Inr (write_sint i) | None \<Rightarrow> Inl TypeError)"

section \<open>Path: writing and reading\<close>

text \<open>
  \<^verbatim>\<open>Path.write\<close>.  The encoders of point lists and of repetitions are those of
  \<^verbatim>\<open>basic.py\<close> and are parameters.  The record id written is the literal of the source.
\<close>

definition Path_write ::
  "(point_list_t \<Rightarrow> byte list) \<Rightarrow> ('rep repetition_t \<Rightarrow> byte list) \<Rightarrow> 'rep Path
     \<Rightarrow> error + byte list" where
  "Path_write write_point_list write_repetition self =
     (let e = (Path.extension_start self \<noteq> None \<or> Path.extension_end self \<noteq> None);
          w = (Path.half_width self \<noteq> None);
          p = (Path.point_list self \<noteq> None);
          xf = (Path.x self \<noteq> None);
          yf = (Path.y self \<noteq> None);
          r = (Path.repetition self \<noteq> None);
          d = (Path.datatype' self \<noteq> None);
          l = (Path.layer self \<noteq> None);
          scheme = (case Path.extension_start self of
                      Some ext \<Rightarrow> push_bit 2 (scheme_value (fst ext)) | None \<Rightarrow> 0)
                   + (case Path.extension_end self of
                        Some ext \<Rightarrow> scheme_value (fst ext) | None \<Rightarrow> 0)
      in
      ebind (if e \<and> scheme AND 12 = 12
             then write_sint_opt (snd (the (Path.extension_start self))) else Inr []) (\<lambda>ext_s.
      ebind (if e \<and> scheme AND 3 = 3
             then write_sint_opt (snd (the (Path.extension_end self))) else Inr []) (\<lambda>ext_e.
      Inr (write_uint 21
           @ write_bool_byte (e, w, p, xf, yf, r, d, l)
           @ write_if write_uint (Path.layer self)
           @ write_if write_uint (Path.datatype' self)
           @ write_if write_uint (Path.half_width self)
           @ (if e then write_uint scheme @ ext_s @ ext_e else [])
           @ write_if write_point_list (Path.point_list self)
           @ write_if write_sint (Path.x self)
           @ write_if write_sint (Path.y self)
           @ write_if write_repetition (Path.repetition self)))))"

text \<open>The local function \<^verbatim>\<open>get_pathext\<close> of \<^verbatim>\<open>Path.read\<close>; a scheme is a two-bit value.\<close>

definition get_pathext :: "nat \<Rightarrow> pathextension_t option reader" where
  "get_pathext ext_scheme =
     (if ext_scheme = 0 then rreturn None
      else if ext_scheme = 1 then rreturn (Some (Flush, None))
      else if ext_scheme = 2 then rreturn (Some (HalfWidth, None))
      else rbind read_sint (\<lambda>v. rreturn (Some (Arbitrary, Some v))))"

definition Path_read ::
  "point_list_t reader \<Rightarrow> 'rep repetition_t reader \<Rightarrow> nat \<Rightarrow> 'rep Path reader" where
  "Path_read read_point_list read_repetition record_id =
     (if record_id \<noteq> 22 then (\<lambda>stream. Inl (InvalidDataError ''Invalid record id for Path: ''))
      else
      rbind read_bool_byte (\<lambda>(e, w, p, xf, yf, r, d, l).
      rbind (read_if l read_uint) (\<lambda>layer_v.
      rbind (read_if d read_uint) (\<lambda>datatype_v.
      rbind (read_if w read_uint) (\<lambda>half_width_v.
      rbind (if e
             then rbind read_uint (\<lambda>scheme.
                  rbind (get_pathext (drop_bit 2 scheme AND 3)) (\<lambda>ext_s.
                  rbind (get_pathext (scheme AND 3)) (\<lambda>ext_e.
                  rreturn (ext_s, ext_e))))
             else rreturn (None, None)) (\<lambda>(ext_s, ext_e).
      rbind (read_if p read_point_list) (\<lambda>point_list_v.
      rbind (read_if xf read_sint) (\<lambda>x_v.
      rbind (read_if yf read_sint) (\<lambda>y_v.
      rbind (read_if r read_repetition) (\<lambda>repetition_v.
      rreturn \<lparr> Path.layer = layer_v, datatype' = datatype_v, x = x_v, y = y_v,
                repetition = repetition_v, point_list = point_list_v,
                half_width = half_width_v, extension_start = ext_s,
                extension_end = ext_e \<rparr>))))))))))"

text \<open>Modelled from the spec: a record on the wire is \<^verbatim>\<open>write_uint(id)\<close> followed by its
  payload, so that reading a \<^verbatim>\<open>Path\<close> back is reading the id with \<^verbatim>\<open>read_uint\<close> and
  handing it to \<^verbatim>\<open>Path.read\<close>.  The parser of the whole stream, which is not in
  \<^verbatim>\<open>records.py\<close>, chooses the class by the id: it is not modelled, and on an id other
  than 22 it calls the \<^verbatim>\<open>read\<close> of another class, which does not return a \<^verbatim>\<open>Path\<close>.\<close>

definition Path_decode ::
  "point_list_t reader \<Rightarrow> 'rep repetition_t reader \<Rightarrow> 'rep Path reader" where
  "Path_decode read_point_list read_repetition =
     rbind read_uint (\<lambda>record_id. Path_read read_point_list read_repetition record_id)"

section \<open>Placement: writing\<close>

text \<open>Python's \<^verbatim>\<open>%\<close> on numbers, for a positive modulus.\<close>

definition py_mod :: "real_t \<Rightarrow> real_t \<Rightarrow> real_t" where
  "py_mod a b = a - b * of_int \<lfloor>a / b\<rfloor>"

text \<open>
  The first half of \<^verbatim>\<open>Placement.write\<close>: the record id, the eight header flags, and
  the flags \<open>m\<close> and \<open>a\<close> that say whether the magnification and the angle follow.  The
  test is Python's \<^verbatim>\<open>A and B and C or D\<close>, which groups as \<^verbatim>\<open>(A and B and C) or D\<close>;
  \<^verbatim>\<open>self.angle / 90\<close> raises when the angle is \<^verbatim>\<open>None\<close>.  The two angle flags are the
  integers \<^verbatim>\<open>aa & 0b10\<close> and \<^verbatim>\<open>aa & 0b01\<close>, taken as flags.
\<close>

definition Placement_write_header ::
  "'rep Placement
     \<Rightarrow> error + (nat \<times> (bool \<times> bool \<times> bool \<times> bool \<times> bool \<times> bool \<times> bool \<times> bool) \<times> bool \<times> bool)" where
  "Placement_write_header self =
     (let c = (Placement.name self \<noteq> None);
          n = (c \<and> (case Placement.name self of Some (NameRef i) \<Rightarrow> True | _ \<Rightarrow> False));
          xf = (Placement.x self \<noteq> None);
          yf = (Placement.y self \<noteq> None);
          r = (Placement.repetition self \<noteq> None);
          f = Placement.flip self
      in
      if (Placement.angle self \<noteq> None \<and> py_mod (the (Placement.angle self)) 90 = 0
            \<and> Placement.magnification self = None)
         \<or> Placement.magnification self = Some 1
      then (case Placement.angle self of
              None \<Rightarrow> Inl TypeError
            | Some ang \<Rightarrow>
                (let aa = nat \<lfloor>py_mod (ang / 90) 4\<rfloor>
                 in Inr (17, (c, n, xf, yf, r, aa AND 2 \<noteq> 0, aa AND 1 \<noteq> 0, f), False, False)))
      else
        (let m = (Placement.magnification self \<noteq> None);
             a = (Placement.angle self \<noteq> None)
         in Inr (18, (c, n, xf, yf, r, m, a, f), m, a)))"

text \<open>
  The second half.  The encoder of reals and of repetitions are parameters.  A name
  that is an \<^verbatim>\<open>NString\<close> is written by \<^verbatim>\<open>self.name.write(self)\<close>, whose argument is the
  record and not the stream: the record has no method to take bytes, and the call
  raises.
\<close>

definition Placement_write ::
  "(real_t \<Rightarrow> byte list) \<Rightarrow> ('rep repetition_t \<Rightarrow> byte list) \<Rightarrow> 'rep Placement
     \<Rightarrow> error + byte list" where
  "Placement_write write_real write_repetition self =
     ebind (Placement_write_header self) (\<lambda>(record_id, bools, m, a).
     ebind (case Placement.name self of
              None \<Rightarrow> Inr []
            | Some (NameRef i) \<Rightarrow> Inr (write_uint i)
            | Some (NString str) \<Rightarrow> Inl AttributeError) (\<lambda>name_bytes.
     Inr (write_uint record_id
          @ write_bool_byte bools
          @ name_bytes
          @ (if m then write_if write_real (Placement.magnification self) else [])
          @ (if a then write_if write_real (Placement.angle self) else [])
          @ write_if write_sint (Placement.x self)
          @ write_if write_sint (Placement.y self)
          @ write_if write_repetition (Placement.repetition self))))"

section \<open>End: writing\<close>

text \<open>
  \<^verbatim>\<open>End.write\<close>.  The encoders of the offset table and of the validation are those of
  \<^verbatim>\<open>basic.py\<close> and are parameters.  The result is the bytes written to the stream and
  the number that the method returns, which is the literal 256.
\<close>

definition End_write ::
  "('ot \<Rightarrow> byte list) \<Rightarrow> ('val \<Rightarrow> byte list) \<Rightarrow> ('ot, 'val) End \<Rightarrow> byte list \<times> nat" where
  "End_write write_offset_table write_validation self =
     (let head = write_uint 2 @ write_if write_offset_table (End.offset_table self);
          size = int (length head);
          validation_bytes = write_validation (End.validation self);
          pad_len = 256 - size - int (length validation_bytes);
          pad = (if pad_len > 0 then replicate (nat (pad_len - 1)) (0x80 :: byte) @ [0x00] else [])
      in (head @ pad @ validation_bytes, 256))"

section \<open>Constructors that check their arguments\<close>

definition Rectangle_init ::
  "bool \<Rightarrow> nat option \<Rightarrow> nat option \<Rightarrow> nat option \<Rightarrow> nat option \<Rightarrow> int option \<Rightarrow> int option
     \<Rightarrow> 'rep repetition_t option \<Rightarrow> error + 'rep Rectangle" where
  "Rectangle_init is_square_v layer_v datatype_v width_v height_v x_v y_v repetition_v =
     (if is_square_v \<and> height_v \<noteq> None
      then Inl (InvalidDataError ''Rectangle is square and also has height'')
      else Inr \<lparr> Rectangle.layer = layer_v, datatype' = datatype_v, width = width_v,
                 height = height_v, x = x_v, y = y_v, repetition = repetition_v,
                 is_square = is_square_v \<rparr>)"

text \<open>A comparison of two attributes that are \<^verbatim>\<open>int or None\<close>: Python raises
  \<^verbatim>\<open>TypeError\<close> when either is \<^verbatim>\<open>None\<close> (for \<^verbatim>\<open>2 * None\<close> as for \<^verbatim>\<open>None < 1\<close>).\<close>

definition compare_ints ::
  "(nat \<Rightarrow> nat \<Rightarrow> bool) \<Rightarrow> nat option \<Rightarrow> nat option \<Rightarrow> error + bool" where
  "compare_ints rel a b =
     (case a of
        None \<Rightarrow> Inl TypeError
      | Some v \<Rightarrow> (case b of None \<Rightarrow> Inl TypeError | Some w \<Rightarrow> Inr (rel v w)))"

text \<open>\<^verbatim>\<open>t in range(lo, hi)\<close> for \<^verbatim>\<open>t\<close> an \<^verbatim>\<open>int or None\<close>.\<close>

definition in_range :: "nat option \<Rightarrow> nat \<Rightarrow> nat \<Rightarrow> bool" where
  "in_range t lo hi = (case t of None \<Rightarrow> False | Some v \<Rightarrow> lo \<le> v \<and> v < hi)"

text \<open>\<^verbatim>\<open>if t in range(lo, hi) and <comparison>: raise InvalidDataError(msg)\<close>: the
  comparison is evaluated only when the type is in the range.\<close>

definition check_dimensions ::
  "nat option \<Rightarrow> nat \<Rightarrow> nat \<Rightarrow> (nat \<Rightarrow> nat \<Rightarrow> bool) \<Rightarrow> nat option \<Rightarrow> nat option \<Rightarrow> string
     \<Rightarrow> error + unit" where
  "check_dimensions t lo hi rel w h msg =
     (if in_range t lo hi
      then ebind (compare_ints rel w h) (\<lambda>bad. if bad then Inl (InvalidDataError msg) else Inr ())
      else Inr ())"

definition CTrapezoid_init ::
  "nat option \<Rightarrow> nat option \<Rightarrow> nat option \<Rightarrow> nat option \<Rightarrow> nat option \<Rightarrow> int option
     \<Rightarrow> int option \<Rightarrow> 'rep repetition_t option \<Rightarrow> error + 'rep CTrapezoid" where
  "CTrapezoid_init ctrapezoid_type_v layer_v datatype_v width_v height_v x_v y_v repetition_v =
     (if ctrapezoid_type_v \<in> {Some 20, Some 21} \<and> width_v \<noteq> None
      then Inl (InvalidDataError ''CTrapezoid has spurious width entry: '')
      else if ctrapezoid_type_v \<in> {Some 16, Some 17, Some 18, Some 19, Some 22, Some 23, Some 25}
              \<and> height_v \<noteq> None
      then Inl (InvalidDataError ''CTrapezoid has spurious height entry: '')
      else
      ebind (check_dimensions ctrapezoid_type_v 0 4 (\<lambda>w h. w < h) width_v height_v
               ''CTrapezoid has width < height'') (\<lambda>_.
      ebind (check_dimensions ctrapezoid_type_v 4 8 (\<lambda>w h. w < 2 * h) width_v height_v
               ''CTrapezoid has width < 2*height'') (\<lambda>_.
      ebind (check_dimensions ctrapezoid_type_v 8 12 (\<lambda>w h. w > h) width_v height_v
               ''CTrapezoid has width > height'') (\<lambda>_.
      ebind (check_dimensions ctrapezoid_type_v 12 16 (\<lambda>w h. 2 * w > h) width_v height_v
               ''CTrapezoid has 2*width > height'') (\<lambda>_.
      if ctrapezoid_type_v \<noteq> None \<and> \<not> in_range ctrapezoid_type_v 0 26
      then Inl (InvalidDataError ''CTrapezoid has invalid type: '')
      else Inr \<lparr> CTrapezoid.ctrapezoid_type = ctrapezoid_type_v, layer = layer_v,
                 datatype' = datatype_v, width = width_v, height = height_v,
                 x = x_v, y = y_v, repetition = repetition_v \<rparr>)))))"

text \<open>\<^verbatim>\<open>CTrapezoid.read\<close>; the decoder of repetitions is a parameter.\<close>

definition CTrapezoid_read :: "'rep repetition_t reader \<Rightarrow> nat \<Rightarrow> 'rep CTrapezoid reader" where
  "CTrapezoid_read read_repetition record_id =
     (if record_id \<noteq> 26
      then (\<lambda>stream. Inl (InvalidDataError ''Invalid record id for CTrapezoid: ''))
      else
      rbind read_bool_byte (\<lambda>(t, w, h, xf, yf, r, d, l).
      rbind (read_if l read_uint) (\<lambda>layer_v.
      rbind (read_if d read_uint) (\<lambda>datatype_v.
      rbind (read_if t read_uint) (\<lambda>type_v.
      rbind (read_if w read_uint) (\<lambda>width_v.
      rbind (read_if h read_uint) (\<lambda>height_v.
      rbind (read_if xf read_sint) (\<lambda>x_v.
      rbind (read_if yf read_sint) (\<lambda>y_v.
      rbind (read_if r read_repetition) (\<lambda>repetition_v.
      (\<lambda>stream.
         ebind (CTrapezoid_init type_v layer_v datatype_v width_v height_v x_v y_v repetition_v)
           (\<lambda>record. Inr (record, stream)))))))))))))"

section \<open>Deduplicating and then merging\<close>

text \<open>The composition that the round trip through the modal variables is about:
  \<^verbatim>\<open>deduplicate_with_modals\<close> against a bank, then \<^verbatim>\<open>merge_with_modals\<close> of the result
  against a second bank that is in the state in which the first one started.\<close>

definition dedup_then_merge ::
  "('rep, 'pv, 'ot, 'val) Record \<Rightarrow> ('rep, 'pv) Modals
     \<Rightarrow> error + (('rep, 'pv, 'ot, 'val) Record \<times> ('rep, 'pv) Modals)" where
  "dedup_then_merge record modals =
     ebind (deduplicate_with_modals record modals) (\<lambda>(deduplicated, _).
       merge_with_modals deduplicated modals)"

text \<open>
  The records on which deduplicating and then merging is the identity: every attribute
  that a modal variable stands for is set, and the repetition is not the reuse marker.
  The classes \<^verbatim>\<open>Path\<close> and \<^verbatim>\<open>CTrapezoid\<close> and the square rectangles are left out; the
  classes that do not use the modal variables are all in.
\<close>

fun populated :: "('rep, 'pv, 'ot, 'val) Record \<Rightarrow> bool" where
  "populated (R_Property r) =
     (Property.name r \<noteq> None \<and> Property.values' r \<noteq> None \<and> Property.is_standard r \<noteq> None)"
| "populated (R_XGeometry r) =
     (XGeometry.layer r \<noteq> None \<and> XGeometry.datatype' r \<noteq> None \<and> XGeometry.x r \<noteq> None
      \<and> XGeometry.y r \<noteq> None \<and> XGeometry.repetition r \<noteq> Some ReuseRepetition)"
| "populated (R_Placement r) =
     (Placement.name r \<noteq> None \<and> Placement.x r \<noteq> None \<and> Placement.y r \<noteq> None
      \<and> Placement.repetition r \<noteq> Some ReuseRepetition)"
| "populated (R_Text r) =
     (Text.string r \<noteq> None \<and> Text.layer r \<noteq> None \<and> Text.datatype' r \<noteq> None
      \<and> Text.x r \<noteq> None \<and> Text.y r \<noteq> None \<and> Text.repetition r \<noteq> Some ReuseRepetition)"
| "populated (R_Rectangle r) =
     (\<not> Rectangle.is_square r \<and> Rectangle.layer r \<noteq> None \<and> Rectangle.datatype' r \<noteq> None
      \<and> Rectangle.width r \<noteq> None \<and> Rectangle.height r \<noteq> None \<and> Rectangle.x r \<noteq> None
      \<and> Rectangle.y r \<noteq> None \<and> Rectangle.repetition r \<noteq> Some ReuseRepetition)"
| "populated (R_Polygon r) =
     (Polygon.layer r \<noteq> None \<and> Polygon.datatype' r \<noteq> None \<and> Polygon.point_list r \<noteq> None
      \<and> Polygon.x r \<noteq> None \<and> Polygon.y r \<noteq> None
      \<and> Polygon.repetition r \<noteq> Some ReuseRepetition)"
| "populated (R_Trapezoid r) =
     (Trapezoid.layer r \<noteq> None \<and> Trapezoid.datatype' r \<noteq> None \<and> Trapezoid.width r \<noteq> None
      \<and> Trapezoid.height r \<noteq> None \<and> Trapezoid.x r \<noteq> None \<and> Trapezoid.y r \<noteq> None
      \<and> Trapezoid.repetition r \<noteq> Some ReuseRepetition)"
| "populated (R_Circle r) =
     (Circle.layer r \<noteq> None \<and> Circle.datatype' r \<noteq> None \<and> Circle.radius r \<noteq> None
      \<and> Circle.x r \<noteq> None \<and> Circle.y r \<noteq> None \<and> Circle.repetition r \<noteq> Some ReuseRepetition)"
| "populated (R_Path r) = False"
| "populated (R_CTrapezoid r) = False"
| "populated _ = True"

section \<open>Properties of the merge engine\<close>

text \<open>
  On a modal attribute that exists, \<^verbatim>\<open>adjust_field\<close> has three outcomes: a record
  attribute that is set is stored in the modal variable; otherwise a modal variable that
  is set is copied into the record; otherwise the call raises the error whose message
  is \<open>Unfillable field: \<close> and the name of the modal variable.  The pairs are the
  record attribute and the modal variable afterwards.
\<close>

lemma adjust_field_declared:
  "(\<forall>v. r = Some v \<longrightarrow> adjust_field m_field r (Present m) = Inr (Some v, Some v)) \<and>
   (\<forall>w. r = None \<and> m = Some w \<longrightarrow>
      adjust_field m_field r (Present m) = Inr (Some w, Some w)) \<and>
   (r = None \<and> m = None \<longrightarrow>
      adjust_field m_field r (Present m)
        = Inl (InvalidDataError (''Unfillable field: '' @ m_field)))"
  by (simp add: adjust_field_def)

text \<open>
  C3 says that \<^verbatim>\<open>adjust_field\<close> has these three outcomes and no other.  There is a
  fourth: \<^verbatim>\<open>Path.merge_with_modals\<close> calls it with the modal name \<open>path_half_width\<close>,
  which class \<^verbatim>\<open>Modals\<close> does not declare (it declares \<open>path_halfwidth\<close>).  For a \<^verbatim>\<open>Path\<close>
  without half-width and modal variables that no \<^verbatim>\<open>Path\<close> with a half-width has been
  merged with, the \<^verbatim>\<open>getattr\<close> of \<^verbatim>\<open>adjust_field\<close> raises \<^verbatim>\<open>AttributeError\<close>, which is not
  an error of the layer.
\<close>

theorem adjust_field_attribute_error:
  "adjust_field ''path_half_width'' (None :: nat option) Absent = Inl AttributeError \<and>
   Path_merge_with_modals
     \<lparr> Path.layer = Some 1, datatype' = Some 0, x = Some 0, y = Some 0,
       repetition = (None :: nat repetition_t option), point_list = Some [[0, 0], [10, 0]],
       half_width = None, extension_start = Some (Flush, None),
       extension_end = Some (Flush, None) \<rparr>
     (Modals_init :: (nat, nat) Modals)
   = Inl AttributeError"
  by (simp add: Path_merge_with_modals_def adjust_coordinates_def adjust_repetition_def
        adjust_field_def Modals_init_def ebind_def)

text \<open>
  C9.  \<^verbatim>\<open>adjust_repetition\<close> raises exactly when the record holds the reuse marker and
  the modal repetition is unset, and then the error is \<open>Unfillable repetition\<close>; with a
  modal repetition that is set, the reuse marker is replaced by the modal value and the
  modal variable keeps it; any other repetition of the record is stored in the modal
  variable; a record without repetition is left alone.
\<close>

theorem adjust_repetition_cases:
  "(adjust_repetition r m = Inl (InvalidDataError ''Unfillable repetition'')
      \<longleftrightarrow> r = Some ReuseRepetition \<and> m = None) \<and>
   (\<forall>e. adjust_repetition r m = Inl e \<longrightarrow> e = InvalidDataError ''Unfillable repetition'') \<and>
   (\<forall>v. r = Some ReuseRepetition \<and> m = Some v \<longrightarrow> adjust_repetition r m = Inr (Some v, Some v)) \<and>
   (\<forall>v. r = Some (Repetition v) \<longrightarrow>
      adjust_repetition r m = Inr (Some (Repetition v), Some (Repetition v))) \<and>
   (r = None \<longrightarrow> adjust_repetition r m = Inr (None, m))"
  by (auto simp: adjust_repetition_def split: option.splits repetition_t.splits)

theorem adjust_repetition_cases_witness:
  "adjust_repetition (Some ReuseRepetition) (None :: nat repetition_t option)
     = Inl (InvalidDataError ''Unfillable repetition'') \<and>
   adjust_repetition (Some ReuseRepetition) (Some (Repetition (9::nat)))
     = Inr (Some (Repetition 9), Some (Repetition 9)) \<and>
   adjust_repetition (Some (Repetition (4::nat))) (Some (Repetition 9))
     = Inr (Some (Repetition 4), Some (Repetition 4)) \<and>
   adjust_repetition None (Some (Repetition (9::nat))) = Inr (None, Some (Repetition 9))"
proof -
  have a: "adjust_repetition (Some ReuseRepetition) (None :: nat repetition_t option)
             = Inl (InvalidDataError ''Unfillable repetition'')"
    using adjust_repetition_cases [where r = "Some ReuseRepetition"
        and m = "None :: nat repetition_t option"] by blast
  have b: "adjust_repetition (Some ReuseRepetition) (Some (Repetition (9::nat)))
             = Inr (Some (Repetition 9), Some (Repetition 9))"
    using adjust_repetition_cases [where r = "Some ReuseRepetition"
        and m = "Some (Repetition (9::nat))"] by blast
  have c: "adjust_repetition (Some (Repetition (4::nat))) (Some (Repetition 9))
             = Inr (Some (Repetition 4), Some (Repetition 4))"
    using adjust_repetition_cases [where r = "Some (Repetition (4::nat))"
        and m = "Some (Repetition 9)"] by blast
  have d: "adjust_repetition None (Some (Repetition (9::nat))) = Inr (None, Some (Repetition 9))"
    using adjust_repetition_cases [where r = "None :: nat repetition_t option"
        and m = "Some (Repetition (9::nat))"] by blast
  from a b c d show ?thesis by blast
qed

section \<open>Records that reset or ignore the modal variables\<close>

lemma reset_eq:
  "reset m = Modals_init\<lparr>path_half_width := path_half_width m\<rparr>"
  by (cases m) (simp add: reset_def Modals_init_def)

text \<open>
  \<^verbatim>\<open>reset\<close> gives every variable that class \<^verbatim>\<open>Modals\<close> declares its initial value, and
  leaves \<open>path_half_width\<close> as it is.  Merging and deduplicating a \<^verbatim>\<open>Start\<close>, \<^verbatim>\<open>CellName\<close>,
  \<^verbatim>\<open>PropName\<close>, \<^verbatim>\<open>TextString\<close>, \<^verbatim>\<open>PropString\<close>, \<^verbatim>\<open>LayerName\<close>, \<^verbatim>\<open>XName\<close> or \<^verbatim>\<open>Cell\<close> record
  call \<^verbatim>\<open>reset\<close>; for \<^verbatim>\<open>Pad\<close>, \<^verbatim>\<open>End\<close>, \<^verbatim>\<open>CBlock\<close> and \<^verbatim>\<open>XElement\<close> both leave the modal
  variables as they are; merging an \<^verbatim>\<open>XYMode\<close> record changes \<open>xy_relative\<close> alone, to the
  flag of the record, and deduplicating it changes nothing.  The record itself is never
  changed.
\<close>

lemma modal_scope_declared:
  "reset m = Modals_init\<lparr>path_half_width := path_half_width m\<rparr> \<and>
   (\<forall>s. merge_with_modals (R_Start s :: ('rep, 'pv, 'ot, 'val) Record) m = Inr (R_Start s, reset m) \<and>
        deduplicate_with_modals (R_Start s :: ('rep, 'pv, 'ot, 'val) Record) m = Inr (R_Start s, reset m)) \<and>
   (\<forall>s. merge_with_modals (R_CellName s :: ('rep, 'pv, 'ot, 'val) Record) m = Inr (R_CellName s, reset m) \<and>
        deduplicate_with_modals (R_CellName s :: ('rep, 'pv, 'ot, 'val) Record) m = Inr (R_CellName s, reset m)) \<and>
   (\<forall>s. merge_with_modals (R_PropName s :: ('rep, 'pv, 'ot, 'val) Record) m = Inr (R_PropName s, reset m) \<and>
        deduplicate_with_modals (R_PropName s :: ('rep, 'pv, 'ot, 'val) Record) m = Inr (R_PropName s, reset m)) \<and>
   (\<forall>s. merge_with_modals (R_TextString s :: ('rep, 'pv, 'ot, 'val) Record) m = Inr (R_TextString s, reset m) \<and>
        deduplicate_with_modals (R_TextString s :: ('rep, 'pv, 'ot, 'val) Record) m = Inr (R_TextString s, reset m)) \<and>
   (\<forall>s. merge_with_modals (R_PropString s :: ('rep, 'pv, 'ot, 'val) Record) m = Inr (R_PropString s, reset m) \<and>
        deduplicate_with_modals (R_PropString s :: ('rep, 'pv, 'ot, 'val) Record) m = Inr (R_PropString s, reset m)) \<and>
   (\<forall>s. merge_with_modals (R_LayerName s :: ('rep, 'pv, 'ot, 'val) Record) m = Inr (R_LayerName s, reset m) \<and>
        deduplicate_with_modals (R_LayerName s :: ('rep, 'pv, 'ot, 'val) Record) m = Inr (R_LayerName s, reset m)) \<and>
   (\<forall>s. merge_with_modals (R_XName s :: ('rep, 'pv, 'ot, 'val) Record) m = Inr (R_XName s, reset m) \<and>
        deduplicate_with_modals (R_XName s :: ('rep, 'pv, 'ot, 'val) Record) m = Inr (R_XName s, reset m)) \<and>
   (\<forall>s. merge_with_modals (R_Cell s :: ('rep, 'pv, 'ot, 'val) Record) m = Inr (R_Cell s, reset m) \<and>
        deduplicate_with_modals (R_Cell s :: ('rep, 'pv, 'ot, 'val) Record) m = Inr (R_Cell s, reset m)) \<and>
   merge_with_modals (R_Pad :: ('rep, 'pv, 'ot, 'val) Record) m = Inr (R_Pad, m) \<and>
   deduplicate_with_modals (R_Pad :: ('rep, 'pv, 'ot, 'val) Record) m = Inr (R_Pad, m) \<and>
   (\<forall>s. merge_with_modals (R_End s :: ('rep, 'pv, 'ot, 'val) Record) m = Inr (R_End s, m) \<and>
        deduplicate_with_modals (R_End s :: ('rep, 'pv, 'ot, 'val) Record) m = Inr (R_End s, m)) \<and>
   (\<forall>s. merge_with_modals (R_CBlock s :: ('rep, 'pv, 'ot, 'val) Record) m = Inr (R_CBlock s, m) \<and>
        deduplicate_with_modals (R_CBlock s :: ('rep, 'pv, 'ot, 'val) Record) m = Inr (R_CBlock s, m)) \<and>
   (\<forall>s. merge_with_modals (R_XElement s :: ('rep, 'pv, 'ot, 'val) Record) m = Inr (R_XElement s, m) \<and>
        deduplicate_with_modals (R_XElement s :: ('rep, 'pv, 'ot, 'val) Record) m = Inr (R_XElement s, m)) \<and>
   (\<forall>s. merge_with_modals (R_XYMode s :: ('rep, 'pv, 'ot, 'val) Record) m
          = Inr (R_XYMode s, m\<lparr>xy_relative := XYMode.relative s\<rparr>) \<and>
        deduplicate_with_modals (R_XYMode s :: ('rep, 'pv, 'ot, 'val) Record) m = Inr (R_XYMode s, m))"
  by (simp add: reset_eq)

text \<open>
  C5 says that the records of the first group reset every modal variable to its
  initial value.  The modal variable that \<^verbatim>\<open>Path\<close> records really use for their
  half-width is the attribute \<open>path_half_width\<close>, and it survives: after a \<^verbatim>\<open>Path\<close> of
  half-width 7 and then a \<^verbatim>\<open>Cell\<close>, the modal variables are not in their initial state,
  and a \<^verbatim>\<open>Path\<close> without half-width takes the 7 of the cell before.
\<close>

theorem reset_keeps_path_half_width:
  "merge_with_modals
     (R_Path \<lparr> Path.layer = Some 1, datatype' = Some 0, x = Some 0, y = Some 0,
               repetition = None, point_list = Some [[0, 0], [10, 0]], half_width = Some 7,
               extension_start = Some (Flush, None), extension_end = Some (Flush, None) \<rparr>
        :: (nat, nat, nat, nat) Record)
     Modals_init
   = Inr (R_Path \<lparr> Path.layer = Some 1, datatype' = Some 0, x = Some 0, y = Some 0,
               repetition = None, point_list = Some [[0, 0], [10, 0]], half_width = Some 7,
               extension_start = Some (Flush, None), extension_end = Some (Flush, None) \<rparr>,
          Modals_init\<lparr>Modals.layer := Some 1, Modals.datatype' := Some 0,
            path_point_list := Some [[0, 0], [10, 0]],
            path_extension_start := Some (Flush, None),
            path_extension_end := Some (Flush, None),
            path_half_width := Present (Some 7)\<rparr>) \<and>
   merge_with_modals
     (R_Cell \<lparr> Cell.name = NameRef 0 \<rparr> :: (nat, nat, nat, nat) Record)
     (Modals_init\<lparr>Modals.layer := Some 1, Modals.datatype' := Some 0,
        path_point_list := Some [[0, 0], [10, 0]],
        path_extension_start := Some (Flush, None),
        path_extension_end := Some (Flush, None),
        path_half_width := Present (Some 7)\<rparr>)
   = Inr (R_Cell \<lparr> Cell.name = NameRef 0 \<rparr>,
          Modals_init\<lparr>path_half_width := Present (Some 7)\<rparr>) \<and>
   (Modals_init :: (nat, nat) Modals)\<lparr>path_half_width := Present (Some 7)\<rparr> \<noteq> Modals_init \<and>
   merge_with_modals
     (R_Path \<lparr> Path.layer = Some 1, datatype' = Some 0, x = Some 0, y = Some 0,
               repetition = None, point_list = Some [[0, 0], [10, 0]], half_width = None,
               extension_start = Some (Flush, None), extension_end = Some (Flush, None) \<rparr>
        :: (nat, nat, nat, nat) Record)
     (Modals_init\<lparr>path_half_width := Present (Some 7)\<rparr>)
   = Inr (R_Path \<lparr> Path.layer = Some 1, datatype' = Some 0, x = Some 0, y = Some 0,
               repetition = None, point_list = Some [[0, 0], [10, 0]], half_width = Some 7,
               extension_start = Some (Flush, None), extension_end = Some (Flush, None) \<rparr>,
          Modals_init\<lparr>Modals.layer := Some 1, Modals.datatype' := Some 0,
            path_point_list := Some [[0, 0], [10, 0]],
            path_extension_start := Some (Flush, None),
            path_extension_end := Some (Flush, None),
            path_half_width := Present (Some 7)\<rparr>)"
  by (simp add: Path_merge_with_modals_def adjust_coordinates_def adjust_repetition_def
        adjust_field_def Modals_init_def reset_def ebind_def)

section \<open>Coordinates\<close>

lemma ebind_eq_Inr: "ebind v f = Inr b \<longleftrightarrow> (\<exists>a. v = Inr a \<and> f a = Inr b)"
  by (cases v) (simp_all add: ebind_def)

lemma ebind_Inr [simp]: "ebind (Inr a) f = f a"
  by (simp add: ebind_def)

lemma ebind_Inl [simp]: "ebind (Inl e) f = Inl e"
  by (simp add: ebind_def)

lemma adjust_coordinates_total:
  "adjust_coordinates rel (rx, ry) (mx, my) =
     Inr (((case rx of Some v \<Rightarrow> if rel then Some (v + mx) else Some v | None \<Rightarrow> Some mx),
           (case ry of Some v \<Rightarrow> if rel then Some (v + my) else Some v | None \<Rightarrow> Some my)),
          ((case rx of Some v \<Rightarrow> if rel then mx else v | None \<Rightarrow> mx),
           (case ry of Some v \<Rightarrow> if rel then my else v | None \<Rightarrow> my)))"
  by (simp add: adjust_coordinates_def split: option.splits)

lemma Rectangle_merge_coordinates:
  assumes "Rectangle_merge_with_modals self modals = Inr (self', modals')"
  shows "adjust_coordinates (xy_relative modals) (Rectangle.x self, Rectangle.y self)
           (geometry_x modals, geometry_y modals)
         = Inr ((Rectangle.x self', Rectangle.y self'), (geometry_x modals', geometry_y modals'))"
  using assms unfolding Rectangle_merge_with_modals_def adjust_coordinates_total
  by (auto simp: ebind_eq_Inr split: if_splits)

text \<open>
  C4.  \<^verbatim>\<open>adjust_coordinates\<close> never raises, and treats each axis by itself, whatever the
  other axis holds: a coordinate that is set has the modal value added to it when
  \<open>xy_relative\<close> holds, the modal variable staying as it is, and is stored in the modal
  variable when \<open>xy_relative\<close> does not hold; a coordinate that is unset takes the modal
  value.  In particular a \<^verbatim>\<open>Rectangle\<close> with \<open>x = 5\<close>, merged with modal variables where
  \<open>xy_relative\<close> holds and \<open>geometry_x\<close> is 100, has \<open>x = 105\<close> afterwards, and
  \<open>geometry_x\<close> is still 100.
\<close>

theorem adjust_coordinates_axes:
  "(\<forall>e. adjust_coordinates rel (rx, ry) (mx, my) \<noteq> Inl e) \<and>
   (\<forall>v. rx = Some v \<and> rel \<longrightarrow>
      (\<exists>ry' my'. adjust_coordinates rel (rx, ry) (mx, my) = Inr ((Some (v + mx), ry'), (mx, my')))) \<and>
   (\<forall>v. rx = Some v \<and> \<not> rel \<longrightarrow>
      (\<exists>ry' my'. adjust_coordinates rel (rx, ry) (mx, my) = Inr ((Some v, ry'), (v, my')))) \<and>
   (rx = None \<longrightarrow>
      (\<exists>ry' my'. adjust_coordinates rel (rx, ry) (mx, my) = Inr ((Some mx, ry'), (mx, my')))) \<and>
   (\<forall>v. ry = Some v \<and> rel \<longrightarrow>
      (\<exists>rx' mx'. adjust_coordinates rel (rx, ry) (mx, my) = Inr ((rx', Some (v + my)), (mx', my)))) \<and>
   (\<forall>v. ry = Some v \<and> \<not> rel \<longrightarrow>
      (\<exists>rx' mx'. adjust_coordinates rel (rx, ry) (mx, my) = Inr ((rx', Some v), (mx', v)))) \<and>
   (ry = None \<longrightarrow>
      (\<exists>rx' mx'. adjust_coordinates rel (rx, ry) (mx, my) = Inr ((rx', Some my), (mx', my)))) \<and>
   (xy_relative modals \<and> geometry_x modals = 100 \<and> Rectangle.x self = Some 5 \<and>
      Rectangle_merge_with_modals self modals = Inr (self', modals') \<longrightarrow>
      Rectangle.x self' = Some 105 \<and> geometry_x modals' = 100)"
proof -
  have rect: "Rectangle.x self' = Some 105 \<and> geometry_x modals' = 100"
    if "xy_relative modals" "geometry_x modals = 100" "Rectangle.x self = Some 5"
       "Rectangle_merge_with_modals self modals = Inr (self', modals')"
    using Rectangle_merge_coordinates [OF that(4)] that(1-3)
    by (simp add: adjust_coordinates_total)
  show ?thesis
    using rect by (simp add: adjust_coordinates_total)
qed

theorem adjust_coordinates_axes_witness:
  "Rectangle_merge_with_modals
     \<lparr> Rectangle.layer = Some 1, datatype' = Some 0, width = Some 10, height = Some 20,
       x = Some 5, y = None, repetition = (None :: nat repetition_t option), is_square = False \<rparr>
     ((Modals_init :: (nat, nat) Modals)\<lparr>xy_relative := True, geometry_x := 100\<rparr>)
   = Inr (\<lparr> Rectangle.layer = Some 1, datatype' = Some 0, width = Some 10, height = Some 20,
             x = Some 105, y = Some 0, repetition = None, is_square = False \<rparr>,
          Modals_init\<lparr>xy_relative := True, geometry_x := 100, Modals.layer := Some 1,
             Modals.datatype' := Some 0, geometry_w := Some 10, geometry_h := Some 20\<rparr>)
   \<and> (\<exists>ry' my'. adjust_coordinates False (Some 5, None) (100, 7) = Inr ((Some 5, ry'), (5, my')))
   \<and> (\<exists>rx' mx'. adjust_coordinates False (Some 5, None) (100, 7) = Inr ((rx', Some 7), (mx', 7)))"
proof -
  let ?r = "\<lparr> Rectangle.layer = Some 1, datatype' = Some 0, width = Some 10, height = Some 20,
       x = Some 5, y = None, repetition = (None :: nat repetition_t option), is_square = False \<rparr>"
  let ?m = "(Modals_init :: (nat, nat) Modals)\<lparr>xy_relative := True, geometry_x := 100\<rparr>"
  let ?r' =  "\<lparr> Rectangle.layer = Some 1, datatype' = Some 0, width = Some 10, height = Some 20,
             x = Some 105, y = Some 0, repetition = (None :: nat repetition_t option), is_square = False \<rparr>"
  let ?m' = "(Modals_init :: (nat, nat) Modals)\<lparr>xy_relative := True, geometry_x := 100,
                                                Modals.layer := Some 1,
             Modals.datatype' := Some 0, geometry_w := Some 10, geometry_h := Some 20\<rparr>"
  have run: "Rectangle_merge_with_modals ?r ?m = Inr (?r', ?m')"
    by (simp add: Rectangle_merge_with_modals_def adjust_coordinates_total adjust_repetition_def
          adjust_field_def Modals_init_def)
  have hyp: "xy_relative ?m \<and> geometry_x ?m = 100 \<and> Rectangle.x ?r = Some 5 \<and>
             Rectangle_merge_with_modals ?r ?m = Inr (?r', ?m')"
    using run by simp
  have concl: "Rectangle.x ?r' = Some 105 \<and> geometry_x ?m' = 100"
    using adjust_coordinates_axes [where modals = ?m and self = ?r and self' = ?r'
        and modals' = ?m'] hyp by blast
  have ax: "\<exists>ry' my'. adjust_coordinates False (Some 5, None) (100, 7) = Inr ((Some 5, ry'), (5, my'))"
    using adjust_coordinates_axes [where rel = False and rx = "Some 5" and ry = None
        and mx = 100 and my = 7] by blast
  have ay: "\<exists>rx' mx'. adjust_coordinates False (Some 5, None) (100, 7) = Inr ((rx', Some 7), (mx', 7))"
    using adjust_coordinates_axes [where rel = False and rx = "Some 5" and ry = None
        and mx = 100 and my = 7] by blast
  from run concl ax ay show ?thesis by blast
qed

section \<open>Square rectangles\<close>

lemma adjust_field_Inr:
  assumes "adjust_field m_field r (Present m) = Inr (r', m')"
  shows "\<exists>v. r' = Some v \<and> m' = Some v \<and> (r = Some v \<or> r = None \<and> m = Some v)"
  using assms by (cases r; cases m) (auto simp: adjust_field_def)

lemma Rectangle_merge_square:
  assumes "Rectangle.is_square self"
    and "Rectangle_merge_with_modals self modals = Inr (self', modals')"
  shows "\<exists>w1 mw w2 mh.
           adjust_field ''geometry_w'' (Rectangle.width self) (Present (geometry_w modals)) = Inr (w1, mw) \<and>
           adjust_field ''geometry_h'' w1 (Present (geometry_h modals)) = Inr (w2, mh) \<and>
           Rectangle.width self' = w2 \<and> Rectangle.height self' = Rectangle.height self \<and>
           geometry_w modals' = mw \<and> geometry_h modals' = mh"
  using assms unfolding Rectangle_merge_with_modals_def adjust_coordinates_total
  by (auto simp: ebind_eq_Inr)

text \<open>
  C7, as amended.  For a \<^verbatim>\<open>Rectangle\<close> with \<open>is_square\<close>, \<^verbatim>\<open>merge_with_modals\<close> merges the
  width with \<open>geometry_w\<close> and then the width again with \<open>geometry_h\<close>: when it returns,
  the width of the record is set (to the width it had, or else to the modal width) and
  both modal variables hold it.  The height of the record is not touched: it stays as
  it was, which is unset for every square that the constructor accepts.
\<close>

theorem Rectangle_square_merge:
  "(Rectangle_init True l d w h xv yv rep = Inr self \<longrightarrow> Rectangle.height self = None) \<and>
   (Rectangle.is_square self \<and> Rectangle_merge_with_modals self modals = Inr (self', modals') \<longrightarrow>
      Rectangle.height self' = Rectangle.height self \<and>
      (\<exists>v. Rectangle.width self' = Some v \<and> geometry_w modals' = Some v \<and>
            geometry_h modals' = Some v \<and>
            (Rectangle.width self = Some v \<or>
             Rectangle.width self = None \<and> geometry_w modals = Some v)))"
proof -
  have a: "Rectangle.height self = None" if "Rectangle_init True l d w h xv yv rep = Inr self"
    using that by (auto simp: Rectangle_init_def split: if_splits)
  have b: "Rectangle.height self' = Rectangle.height self \<and>
      (\<exists>v. Rectangle.width self' = Some v \<and> geometry_w modals' = Some v \<and>
            geometry_h modals' = Some v \<and>
            (Rectangle.width self = Some v \<or>
             Rectangle.width self = None \<and> geometry_w modals = Some v))"
    if "Rectangle.is_square self" "Rectangle_merge_with_modals self modals = Inr (self', modals')"
  proof -
    from Rectangle_merge_square [OF that] obtain w1 mw w2 mh where
      s1: "adjust_field ''geometry_w'' (Rectangle.width self) (Present (geometry_w modals)) = Inr (w1, mw)"
      and s2: "adjust_field ''geometry_h'' w1 (Present (geometry_h modals)) = Inr (w2, mh)"
      and r: "Rectangle.width self' = w2" "Rectangle.height self' = Rectangle.height self"
             "geometry_w modals' = mw" "geometry_h modals' = mh"
      by blast
    from adjust_field_Inr [OF s1] obtain v where v: "w1 = Some v" "mw = Some v"
      "Rectangle.width self = Some v \<or> Rectangle.width self = None \<and> geometry_w modals = Some v"
      by blast
    from adjust_field_Inr [OF s2] v have "w2 = Some v" "mh = Some v"
      by auto
    with v r show ?thesis by simp
  qed
  from a b show ?thesis by blast
qed

theorem Rectangle_square_merge_witness:
  "Rectangle_init True (Some 1) (Some 0) (Some 10) None (Some 5) (Some 7)
       (None :: nat repetition_t option)
     = Inr \<lparr> Rectangle.layer = Some 1, datatype' = Some 0, width = Some 10, height = None,
             x = Some 5, y = Some 7, repetition = None, is_square = True \<rparr> \<and>
   Rectangle_merge_with_modals
     \<lparr> Rectangle.layer = Some 1, datatype' = Some 0, width = Some 10, height = None,
       x = Some 5, y = Some 7, repetition = (None :: nat repetition_t option), is_square = True \<rparr>
     (Modals_init :: (nat, nat) Modals)
   = Inr (\<lparr> Rectangle.layer = Some 1, datatype' = Some 0, width = Some 10, height = None,
             x = Some 5, y = Some 7, repetition = None, is_square = True \<rparr>,
          Modals_init\<lparr>geometry_x := 5, geometry_y := 7, Modals.layer := Some 1,
             Modals.datatype' := Some 0, geometry_w := Some 10, geometry_h := Some 10\<rparr>)"
proof -
  let ?r = "\<lparr> Rectangle.layer = Some 1, datatype' = Some 0, width = Some 10, height = None,
       x = Some 5, y = Some 7, repetition = (None :: nat repetition_t option), is_square = True \<rparr>"
  let ?m = "Modals_init :: (nat, nat) Modals"
  let ?m' = "(Modals_init :: (nat, nat) Modals)\<lparr>geometry_x := 5, geometry_y := 7,
                                                Modals.layer := Some 1,
             Modals.datatype' := Some 0, geometry_w := Some 10, geometry_h := Some 10\<rparr>"
  have init: "Rectangle_init True (Some 1) (Some 0) (Some 10) None (Some 5) (Some 7)
       (None :: nat repetition_t option) = Inr ?r"
    by (simp add: Rectangle_init_def)
  have run: "Rectangle_merge_with_modals ?r ?m = Inr (?r, ?m')"
    by (simp add: Rectangle_merge_with_modals_def adjust_coordinates_total adjust_repetition_def
          adjust_field_def Modals_init_def)
  have hyp: "Rectangle.is_square ?r \<and> Rectangle_merge_with_modals ?r ?m = Inr (?r, ?m')"
    using run by simp
  have "Rectangle.height ?r = None"
    using Rectangle_square_merge [where self = ?r and l = "Some 1" and d = "Some 0"
        and w = "Some 10" and h = None and xv = "Some 5" and yv = "Some 7" and rep = None] init
    by blast
  moreover have "Rectangle.height ?r = Rectangle.height ?r"
    using Rectangle_square_merge [where self = ?r and modals = ?m and self' = ?r
        and modals' = ?m'] hyp by blast
  ultimately show ?thesis using init run by blast
qed

text \<open>
  C7, as stated, fails: after the merge of a square of width 10 the height is still
  unset, while the width is 10.
\<close>

theorem Rectangle_square_height_counterexample:
  "map_sum id (Rectangle.height \<circ> fst)
     (Rectangle_merge_with_modals
        \<lparr> Rectangle.layer = Some 1, datatype' = Some 0, width = Some 10, height = None,
          x = Some 5, y = Some 7, repetition = (None :: nat repetition_t option),
          is_square = True \<rparr>
        (Modals_init :: (nat, nat) Modals))
     = Inr None \<and>
   map_sum id (Rectangle.width \<circ> fst)
     (Rectangle_merge_with_modals
        \<lparr> Rectangle.layer = Some 1, datatype' = Some 0, width = Some 10, height = None,
          x = Some 5, y = Some 7, repetition = (None :: nat repetition_t option),
          is_square = True \<rparr>
        (Modals_init :: (nat, nat) Modals))
     = Inr (Some 10)"
  by (simp add: Rectangle_merge_with_modals_def adjust_coordinates_total adjust_repetition_def
        adjust_field_def Modals_init_def)

section \<open>The length of the End record\<close>

lemma write_uint_small: "n < 128 \<Longrightarrow> write_uint n = [of_nat n]"
  by (simp add: write_uint.simps)

lemma read_uint_pad:
  "read_uint (replicate k (0x80 :: byte) @ 0x00 # rest) = Inr (0, rest)"
  by (induction k) simp_all

lemma read_bstring_pad:
  "read_bstring (replicate k (0x80 :: byte) @ 0x00 # rest) = Inr ([], rest)"
  by (simp add: read_bstring_def rbind_def read_uint_pad)

text \<open>
  C8, as amended.  When the id byte, the offset table and the validation together take
  fewer than 256 bytes, \<^verbatim>\<open>End.write\<close> writes exactly 256 bytes, the number it returns: the
  id, the offset table if there is one, a padding of bytes \<open>0x80\<close> closed by one byte
  \<open>0x00\<close>, and the validation.  The padding reads back as a binary string of length
  zero, whose length prefix fills the space.
\<close>

theorem End_write_length:
  assumes "1 + length (write_if write_offset_table (End.offset_table self))
             + length (write_validation (End.validation self)) < 256"
  shows "length (fst (End_write write_offset_table write_validation self)) = 256 \<and>
         snd (End_write write_offset_table write_validation self)
           = length (fst (End_write write_offset_table write_validation self)) \<and>
         (\<exists>k. fst (End_write write_offset_table write_validation self)
                  = write_uint 2 @ write_if write_offset_table (End.offset_table self)
                    @ (replicate k 0x80 @ [0x00])
                    @ write_validation (End.validation self) \<and>
              (\<forall>rest. read_bstring ((replicate k 0x80 @ [0x00]) @ rest) = Inr ([], rest)))"
proof -
  define ot where "ot = write_if write_offset_table (End.offset_table self)"
  define val where "val = write_validation (End.validation self)"
  define k where "k = 255 - (1 + length ot + length val)"
  have fit: "1 + length ot + length val < 256"
    using assms by (simp add: ot_def val_def)
  have w2: "write_uint 2 = [2]" by (simp add: write_uint_small)
  have eq: "End_write write_offset_table write_validation self
              = (write_uint 2 @ ot @ (replicate k 0x80 @ [0x00]) @ val, 256)"
    using fit
    by (auto simp: End_write_def Let_def w2 nat_diff_distrib' k_def ot_def val_def)
  have len: "length (write_uint 2 @ ot @ (replicate k (0x80 :: byte) @ [0x00]) @ val) = 256"
    using fit by (simp add: w2 k_def)
  have dec: "\<forall>rest. read_bstring ((replicate k 0x80 @ [0x00]) @ rest) = Inr ([], rest)"
    by (simp add: read_bstring_pad)
  show ?thesis
    unfolding eq fst_conv snd_conv ot_def [symmetric] val_def [symmetric]
    using len dec by (auto intro!: exI [of _ k])
qed

theorem End_write_length_witness:
  "1 + length (write_if id (End.offset_table
        \<lparr> End.offset_table = Some (replicate 12 (0 :: byte)), validation = [0 :: byte] \<rparr>))
     + length (id (End.validation
        \<lparr> End.offset_table = Some (replicate 12 (0 :: byte)), validation = [0 :: byte] \<rparr>)) < 256 \<and>
   length (fst (End_write id id
        \<lparr> End.offset_table = Some (replicate 12 (0 :: byte)), validation = [0 :: byte] \<rparr>)) = 256"
proof -
  let ?e = "\<lparr> End.offset_table = Some (replicate 12 (0 :: byte)), validation = [0 :: byte] \<rparr>"
  have h: "1 + length (write_if id (End.offset_table ?e)) + length (id (End.validation ?e)) < 256"
    by (simp add: write_if_def)
  from End_write_length [of id ?e id, OF h] h show ?thesis by blast
qed

text \<open>
  C8, as stated, fails when the offset table is long: with an offset table of 300
  bytes and a validation of one byte, 302 bytes are written and 256 is returned.
\<close>

theorem End_write_length_counterexample:
  "length (fst (End_write id id
      \<lparr> End.offset_table = Some (replicate 300 (1 :: byte)), validation = [0 :: byte] \<rparr>)) = 302 \<and>
   snd (End_write id id
      \<lparr> End.offset_table = Some (replicate 300 (1 :: byte)), validation = [0 :: byte] \<rparr>) = 256"
  by (simp add: End_write_def write_if_def write_uint_small)

section \<open>The record id that Placement.write chooses\<close>

lemma aa_half: "nat \<lfloor>py_mod (1 / 2) 4\<rfloor> = 0"
proof -
  have "\<lfloor>(1 / 8) :: rat\<rfloor> = 0"
    by (rule floor_unique) simp_all
  then have "py_mod (1 / 2) 4 = 1 / 2"
    unfolding py_mod_def by simp
  moreover have "\<lfloor>(1 / 2) :: rat\<rfloor> = 0"
    by (rule floor_unique) simp_all
  ultimately show ?thesis by simp
qed

lemma wbb0: "write_bool_byte (False, False, False, False, False, False, False, False) = [0]"
  by (simp add: write_bool_byte_def)

text \<open>
  C6 says that \<^verbatim>\<open>Placement.write\<close> chooses id 17 exactly when the angle is a multiple of
  90 and the magnification is unset or 1, and id 18 otherwise.  The test of the source
  holds whenever the magnification is 1, whatever the angle: a placement with
  magnification 1 and angle 45 is written with id 17 and both angle bits clear, so
  that the angle is lost, and one with magnification 1 and no angle raises
  \<^verbatim>\<open>TypeError\<close>.
\<close>

theorem Placement_write_id_choice:
  "Placement_write write_real write_repetition
     \<lparr> Placement.name = None, magnification = Some 1, angle = Some 45, x = None, y = None,
       repetition = None, flip = False \<rparr>
   = Inr [17, 0] \<and>
   Placement_write write_real write_repetition
     \<lparr> Placement.name = None, magnification = Some 1, angle = None, x = None, y = None,
       repetition = None, flip = False \<rparr>
   = Inl TypeError"
  by (simp add: Placement_write_def Placement_write_header_def aa_half wbb0 write_if_def
        write_uint_small)

section \<open>Writing a Path and reading it back\<close>

text \<open>
  C1 says that what \<^verbatim>\<open>write\<close> encodes, \<^verbatim>\<open>read\<close> decodes to the same record, each class
  writing its own id.  \<^verbatim>\<open>Path.write\<close> writes the id 21, which is the id of \<^verbatim>\<open>Polygon\<close>,
  and \<^verbatim>\<open>Path.read\<close> accepts 22 alone: whatever the record holds, the bytes that
  \<^verbatim>\<open>Path.write\<close> has written start with 21 and \<^verbatim>\<open>Path.read\<close> rejects them.
\<close>

theorem Path_write_not_decodable:
  assumes "Path_write write_point_list write_repetition self = Inr bytes"
  shows "take 1 bytes = [21] \<and>
         Path_decode read_point_list read_repetition (bytes @ rest)
           = Inl (InvalidDataError ''Invalid record id for Path: '')"
proof -
  have w: "write_uint 21 = [21]" by (simp add: write_uint_small)
  from assms obtain tail where "bytes = 21 # tail"
    unfolding Path_write_def Let_def w by (auto simp: ebind_eq_Inr)
  then show ?thesis
    by (simp add: Path_decode_def rbind_def Path_read_def)
qed

theorem Path_write_not_decodable_witness:
  "Path_write (\<lambda>pl. []) (\<lambda>rep. [])
     \<lparr> Path.layer = None, datatype' = None, x = None, y = None,
       repetition = (None :: nat repetition_t option), point_list = None, half_width = None,
       extension_start = None, extension_end = None \<rparr> = Inr [21, 0] \<and>
   Path_decode (\<lambda>s. Inr ([], s)) (\<lambda>s. Inr (ReuseRepetition :: nat repetition_t, s)) ([21, 0] @ [])
     = Inl (InvalidDataError ''Invalid record id for Path: '')"
proof -
  let ?p = "\<lparr> Path.layer = None, datatype' = None, x = None, y = None,
       repetition = (None :: nat repetition_t option), point_list = None, half_width = None,
       extension_start = None, extension_end = None \<rparr>"
  have w: "Path_write (\<lambda>pl. []) (\<lambda>rep. []) ?p = Inr [21, 0]"
    by (simp add: Path_write_def write_if_def wbb0 write_uint_small)
  from Path_write_not_decodable [OF w] w show ?thesis by blast
qed

section \<open>Deduplicating and then merging a record\<close>

lemma field_round_trip:
  assumes "r \<noteq> None"
  shows "\<exists>r1 m1 m2. dedup_field r (Present m) = Inr (r1, m1) \<and> adjust_field m_field r1 (Present m) = Inr (r, m2)"
  using assms by (cases r; cases m) (auto simp: dedup_field_def adjust_field_def)

lemma repetition_round_trip:
  assumes "r \<noteq> Some ReuseRepetition"
  shows "\<exists>r1 m1 m2. dedup_repetition r m = Inr (r1, m1) \<and> adjust_repetition r1 m = Inr (r, m2)"
proof (cases r)
  case None
  then show ?thesis by (simp add: dedup_repetition_def adjust_repetition_def)
next
  case (Some a)
  with assms obtain v where "r = Some (Repetition v)" by (cases a) auto
  then show ?thesis
    by (cases m) (auto simp: dedup_repetition_def adjust_repetition_def)
qed

lemma coordinates_round_trip:
  assumes "rx \<noteq> None" and "ry \<noteq> None"
  shows "\<exists>c1 m1 m2. dedup_coordinates rel (rx, ry) (mx, my) = Inr (c1, m1) \<and>
                     adjust_coordinates rel c1 (mx, my) = Inr ((rx, ry), m2)"
  using assms by (cases rx; cases ry) (auto simp: dedup_coordinates_def adjust_coordinates_def)

lemma XGeometry_round_trip:
  assumes "XGeometry.layer self \<noteq> None"
    "XGeometry.datatype' self \<noteq> None"
    "XGeometry.x self \<noteq> None"
    "XGeometry.y self \<noteq> None"
    "XGeometry.repetition self \<noteq> Some ReuseRepetition"
  shows "\<exists>m'. ebind (XGeometry_deduplicate_with_modals self modals)
                 (\<lambda>(d, _). XGeometry_merge_with_modals d modals) = Inr (self, m')"
proof -
  obtain cx cy ux uy vx vy where c:
    "dedup_coordinates (xy_relative modals) (XGeometry.x self, XGeometry.y self)
       (geometry_x modals, geometry_y modals) = Inr ((cx, cy), (ux, uy))"
    "adjust_coordinates (xy_relative modals) (cx, cy) (geometry_x modals, geometry_y modals)
       = Inr ((XGeometry.x self, XGeometry.y self), (vx, vy))"
    using coordinates_round_trip [OF assms(3,4)] by (metis surj_pair)
  obtain p1 pm1 pm2 where p:
    "dedup_repetition (XGeometry.repetition self) (Modals.repetition modals) = Inr (p1, pm1)"
    "adjust_repetition p1 (Modals.repetition modals) = Inr (XGeometry.repetition self, pm2)"
    using repetition_round_trip [OF assms(5)] by blast
  obtain a1 b1 c1 where f1:
    "dedup_field (XGeometry.layer self) (Present (Modals.layer modals)) = Inr (a1, b1)"
    "adjust_field ''layer'' a1 (Present (Modals.layer modals)) = Inr (XGeometry.layer self, c1)"
    using field_round_trip [OF assms(1)] by blast
  obtain a2 b2 c2 where f2:
    "dedup_field (XGeometry.datatype' self) (Present (Modals.datatype' modals)) = Inr (a2, b2)"
    "adjust_field ''datatype'' a2 (Present (Modals.datatype' modals)) = Inr (XGeometry.datatype' self, c2)"
    using field_round_trip [OF assms(2)] by blast
  show ?thesis
    using c p f1 f2
    by (simp add: XGeometry_deduplicate_with_modals_def XGeometry_merge_with_modals_def)
qed

lemma Placement_round_trip:
  assumes "Placement.name self \<noteq> None"
    "Placement.x self \<noteq> None"
    "Placement.y self \<noteq> None"
    "Placement.repetition self \<noteq> Some ReuseRepetition"
  shows "\<exists>m'. ebind (Placement_deduplicate_with_modals self modals)
                 (\<lambda>(d, _). Placement_merge_with_modals d modals) = Inr (self, m')"
proof -
  obtain cx cy ux uy vx vy where c:
    "dedup_coordinates (xy_relative modals) (Placement.x self, Placement.y self)
       (placement_x modals, placement_y modals) = Inr ((cx, cy), (ux, uy))"
    "adjust_coordinates (xy_relative modals) (cx, cy) (placement_x modals, placement_y modals)
       = Inr ((Placement.x self, Placement.y self), (vx, vy))"
    using coordinates_round_trip [OF assms(2,3)] by (metis surj_pair)
  obtain p1 pm1 pm2 where p:
    "dedup_repetition (Placement.repetition self) (Modals.repetition modals) = Inr (p1, pm1)"
    "adjust_repetition p1 (Modals.repetition modals) = Inr (Placement.repetition self, pm2)"
    using repetition_round_trip [OF assms(4)] by blast
  obtain a1 b1 c1 where f1:
    "dedup_field (Placement.name self) (Present (placement_cell modals)) = Inr (a1, b1)"
    "adjust_field ''placement_cell'' a1 (Present (placement_cell modals)) = Inr (Placement.name self, c1)"
    using field_round_trip [OF assms(1)] by blast
  show ?thesis
    using c p f1
    by (simp add: Placement_deduplicate_with_modals_def Placement_merge_with_modals_def)
qed

lemma Text_round_trip:
  assumes "Text.string self \<noteq> None"
    "Text.layer self \<noteq> None"
    "Text.datatype' self \<noteq> None"
    "Text.x self \<noteq> None"
    "Text.y self \<noteq> None"
    "Text.repetition self \<noteq> Some ReuseRepetition"
  shows "\<exists>m'. ebind (Text_deduplicate_with_modals self modals)
                 (\<lambda>(d, _). Text_merge_with_modals d modals) = Inr (self, m')"
proof -
  obtain cx cy ux uy vx vy where c:
    "dedup_coordinates (xy_relative modals) (Text.x self, Text.y self)
       (text_x modals, text_y modals) = Inr ((cx, cy), (ux, uy))"
    "adjust_coordinates (xy_relative modals) (cx, cy) (text_x modals, text_y modals)
       = Inr ((Text.x self, Text.y self), (vx, vy))"
    using coordinates_round_trip [OF assms(4,5)] by (metis surj_pair)
  obtain p1 pm1 pm2 where p:
    "dedup_repetition (Text.repetition self) (Modals.repetition modals) = Inr (p1, pm1)"
    "adjust_repetition p1 (Modals.repetition modals) = Inr (Text.repetition self, pm2)"
    using repetition_round_trip [OF assms(6)] by blast
  obtain a1 b1 c1 where f1:
    "dedup_field (Text.string self) (Present (text_string modals)) = Inr (a1, b1)"
    "adjust_field ''text_string'' a1 (Present (text_string modals)) = Inr (Text.string self, c1)"
    using field_round_trip [OF assms(1)] by blast
  obtain a2 b2 c2 where f2:
    "dedup_field (Text.layer self) (Present (text_layer modals)) = Inr (a2, b2)"
    "adjust_field ''text_layer'' a2 (Present (text_layer modals)) = Inr (Text.layer self, c2)"
    using field_round_trip [OF assms(2)] by blast
  obtain a3 b3 c3 where f3:
    "dedup_field (Text.datatype' self) (Present (text_datatype modals)) = Inr (a3, b3)"
    "adjust_field ''text_datatype'' a3 (Present (text_datatype modals)) = Inr (Text.datatype' self, c3)"
    using field_round_trip [OF assms(3)] by blast
  show ?thesis
    using c p f1 f2 f3
    by (simp add: Text_deduplicate_with_modals_def Text_merge_with_modals_def)
qed

lemma Rectangle_round_trip:
  assumes "Rectangle.layer self \<noteq> None"
    "Rectangle.datatype' self \<noteq> None"
    "Rectangle.width self \<noteq> None"
    "Rectangle.height self \<noteq> None"
    "Rectangle.x self \<noteq> None"
    "Rectangle.y self \<noteq> None"
    "Rectangle.repetition self \<noteq> Some ReuseRepetition"
    "\<not> Rectangle.is_square self"
  shows "\<exists>m'. ebind (Rectangle_deduplicate_with_modals self modals)
                 (\<lambda>(d, _). Rectangle_merge_with_modals d modals) = Inr (self, m')"
proof -
  obtain cx cy ux uy vx vy where c:
    "dedup_coordinates (xy_relative modals) (Rectangle.x self, Rectangle.y self)
       (geometry_x modals, geometry_y modals) = Inr ((cx, cy), (ux, uy))"
    "adjust_coordinates (xy_relative modals) (cx, cy) (geometry_x modals, geometry_y modals)
       = Inr ((Rectangle.x self, Rectangle.y self), (vx, vy))"
    using coordinates_round_trip [OF assms(5,6)] by (metis surj_pair)
  obtain p1 pm1 pm2 where p:
    "dedup_repetition (Rectangle.repetition self) (Modals.repetition modals) = Inr (p1, pm1)"
    "adjust_repetition p1 (Modals.repetition modals) = Inr (Rectangle.repetition self, pm2)"
    using repetition_round_trip [OF assms(7)] by blast
  obtain a1 b1 c1 where f1:
    "dedup_field (Rectangle.layer self) (Present (Modals.layer modals)) = Inr (a1, b1)"
    "adjust_field ''layer'' a1 (Present (Modals.layer modals)) = Inr (Rectangle.layer self, c1)"
    using field_round_trip [OF assms(1)] by blast
  obtain a2 b2 c2 where f2:
    "dedup_field (Rectangle.datatype' self) (Present (Modals.datatype' modals)) = Inr (a2, b2)"
    "adjust_field ''datatype'' a2 (Present (Modals.datatype' modals)) = Inr (Rectangle.datatype' self, c2)"
    using field_round_trip [OF assms(2)] by blast
  obtain a3 b3 c3 where f3:
    "dedup_field (Rectangle.width self) (Present (geometry_w modals)) = Inr (a3, b3)"
    "adjust_field ''geometry_w'' a3 (Present (geometry_w modals)) = Inr (Rectangle.width self, c3)"
    using field_round_trip [OF assms(3)] by blast
  obtain a4 b4 c4 where f4:
    "dedup_field (Rectangle.height self) (Present (geometry_h modals)) = Inr (a4, b4)"
    "adjust_field ''geometry_h'' a4 (Present (geometry_h modals)) = Inr (Rectangle.height self, c4)"
    using field_round_trip [OF assms(4)] by blast
  show ?thesis
    using c p f1 f2 f3 f4 assms(8)
    by (simp add: Rectangle_deduplicate_with_modals_def Rectangle_merge_with_modals_def)
qed

lemma Polygon_round_trip:
  assumes "Polygon.layer self \<noteq> None"
    "Polygon.datatype' self \<noteq> None"
    "Polygon.point_list self \<noteq> None"
    "Polygon.x self \<noteq> None"
    "Polygon.y self \<noteq> None"
    "Polygon.repetition self \<noteq> Some ReuseRepetition"
  shows "\<exists>m'. ebind (Polygon_deduplicate_with_modals self modals)
                 (\<lambda>(d, _). Polygon_merge_with_modals d modals) = Inr (self, m')"
proof -
  obtain cx cy ux uy vx vy where c:
    "dedup_coordinates (xy_relative modals) (Polygon.x self, Polygon.y self)
       (geometry_x modals, geometry_y modals) = Inr ((cx, cy), (ux, uy))"
    "adjust_coordinates (xy_relative modals) (cx, cy) (geometry_x modals, geometry_y modals)
       = Inr ((Polygon.x self, Polygon.y self), (vx, vy))"
    using coordinates_round_trip [OF assms(4,5)] by (metis surj_pair)
  obtain p1 pm1 pm2 where p:
    "dedup_repetition (Polygon.repetition self) (Modals.repetition modals) = Inr (p1, pm1)"
    "adjust_repetition p1 (Modals.repetition modals) = Inr (Polygon.repetition self, pm2)"
    using repetition_round_trip [OF assms(6)] by blast
  obtain a1 b1 c1 where f1:
    "dedup_field (Polygon.layer self) (Present (Modals.layer modals)) = Inr (a1, b1)"
    "adjust_field ''layer'' a1 (Present (Modals.layer modals)) = Inr (Polygon.layer self, c1)"
    using field_round_trip [OF assms(1)] by blast
  obtain a2 b2 c2 where f2:
    "dedup_field (Polygon.datatype' self) (Present (Modals.datatype' modals)) = Inr (a2, b2)"
    "adjust_field ''datatype'' a2 (Present (Modals.datatype' modals)) = Inr (Polygon.datatype' self, c2)"
    using field_round_trip [OF assms(2)] by blast
  obtain a3 b3 c3 where f3:
    "dedup_field (Polygon.point_list self) (Present (polygon_point_list modals)) = Inr (a3, b3)"
    "adjust_field ''polygon_point_list'' a3 (Present (polygon_point_list modals)) = Inr (Polygon.point_list self, c3)"
    using field_round_trip [OF assms(3)] by blast
  show ?thesis
    using c p f1 f2 f3
    by (simp add: Polygon_deduplicate_with_modals_def Polygon_merge_with_modals_def)
qed

lemma Trapezoid_round_trip:
  assumes "Trapezoid.layer self \<noteq> None"
    "Trapezoid.datatype' self \<noteq> None"
    "Trapezoid.width self \<noteq> None"
    "Trapezoid.height self \<noteq> None"
    "Trapezoid.x self \<noteq> None"
    "Trapezoid.y self \<noteq> None"
    "Trapezoid.repetition self \<noteq> Some ReuseRepetition"
  shows "\<exists>m'. ebind (Trapezoid_deduplicate_with_modals self modals)
                 (\<lambda>(d, _). Trapezoid_merge_with_modals d modals) = Inr (self, m')"
proof -
  obtain cx cy ux uy vx vy where c:
    "dedup_coordinates (xy_relative modals) (Trapezoid.x self, Trapezoid.y self)
       (geometry_x modals, geometry_y modals) = Inr ((cx, cy), (ux, uy))"
    "adjust_coordinates (xy_relative modals) (cx, cy) (geometry_x modals, geometry_y modals)
       = Inr ((Trapezoid.x self, Trapezoid.y self), (vx, vy))"
    using coordinates_round_trip [OF assms(5,6)] by (metis surj_pair)
  obtain p1 pm1 pm2 where p:
    "dedup_repetition (Trapezoid.repetition self) (Modals.repetition modals) = Inr (p1, pm1)"
    "adjust_repetition p1 (Modals.repetition modals) = Inr (Trapezoid.repetition self, pm2)"
    using repetition_round_trip [OF assms(7)] by blast
  obtain a1 b1 c1 where f1:
    "dedup_field (Trapezoid.layer self) (Present (Modals.layer modals)) = Inr (a1, b1)"
    "adjust_field ''layer'' a1 (Present (Modals.layer modals)) = Inr (Trapezoid.layer self, c1)"
    using field_round_trip [OF assms(1)] by blast
  obtain a2 b2 c2 where f2:
    "dedup_field (Trapezoid.datatype' self) (Present (Modals.datatype' modals)) = Inr (a2, b2)"
    "adjust_field ''datatype'' a2 (Present (Modals.datatype' modals)) = Inr (Trapezoid.datatype' self, c2)"
    using field_round_trip [OF assms(2)] by blast
  obtain a3 b3 c3 where f3:
    "dedup_field (Trapezoid.width self) (Present (geometry_w modals)) = Inr (a3, b3)"
    "adjust_field ''geometry_w'' a3 (Present (geometry_w modals)) = Inr (Trapezoid.width self, c3)"
    using field_round_trip [OF assms(3)] by blast
  obtain a4 b4 c4 where f4:
    "dedup_field (Trapezoid.height self) (Present (geometry_h modals)) = Inr (a4, b4)"
    "adjust_field ''geometry_h'' a4 (Present (geometry_h modals)) = Inr (Trapezoid.height self, c4)"
    using field_round_trip [OF assms(4)] by blast
  show ?thesis
    using c p f1 f2 f3 f4
    by (simp add: Trapezoid_deduplicate_with_modals_def Trapezoid_merge_with_modals_def)
qed

lemma Circle_round_trip:
  assumes "Circle.layer self \<noteq> None"
    "Circle.datatype' self \<noteq> None"
    "Circle.radius self \<noteq> None"
    "Circle.x self \<noteq> None"
    "Circle.y self \<noteq> None"
    "Circle.repetition self \<noteq> Some ReuseRepetition"
  shows "\<exists>m'. ebind (Circle_deduplicate_with_modals self modals)
                 (\<lambda>(d, _). Circle_merge_with_modals d modals) = Inr (self, m')"
proof -
  obtain cx cy ux uy vx vy where c:
    "dedup_coordinates (xy_relative modals) (Circle.x self, Circle.y self)
       (geometry_x modals, geometry_y modals) = Inr ((cx, cy), (ux, uy))"
    "adjust_coordinates (xy_relative modals) (cx, cy) (geometry_x modals, geometry_y modals)
       = Inr ((Circle.x self, Circle.y self), (vx, vy))"
    using coordinates_round_trip [OF assms(4,5)] by (metis surj_pair)
  obtain p1 pm1 pm2 where p:
    "dedup_repetition (Circle.repetition self) (Modals.repetition modals) = Inr (p1, pm1)"
    "adjust_repetition p1 (Modals.repetition modals) = Inr (Circle.repetition self, pm2)"
    using repetition_round_trip [OF assms(6)] by blast
  obtain a1 b1 c1 where f1:
    "dedup_field (Circle.layer self) (Present (Modals.layer modals)) = Inr (a1, b1)"
    "adjust_field ''layer'' a1 (Present (Modals.layer modals)) = Inr (Circle.layer self, c1)"
    using field_round_trip [OF assms(1)] by blast
  obtain a2 b2 c2 where f2:
    "dedup_field (Circle.datatype' self) (Present (Modals.datatype' modals)) = Inr (a2, b2)"
    "adjust_field ''datatype'' a2 (Present (Modals.datatype' modals)) = Inr (Circle.datatype' self, c2)"
    using field_round_trip [OF assms(2)] by blast
  obtain a3 b3 c3 where f3:
    "dedup_field (Circle.radius self) (Present (circle_radius modals)) = Inr (a3, b3)"
    "adjust_field ''circle_radius'' a3 (Present (circle_radius modals)) = Inr (Circle.radius self, c3)"
    using field_round_trip [OF assms(3)] by blast
  show ?thesis
    using c p f1 f2 f3
    by (simp add: Circle_deduplicate_with_modals_def Circle_merge_with_modals_def)
qed

lemma adjust_field_set:
  assumes "r \<noteq> None"
  shows "\<exists>m2. adjust_field m_field r (Present m) = Inr (r, m2)"
  using assms by (cases r) (auto simp: adjust_field_def)

lemma Property_round_trip:
  assumes "Property.name self \<noteq> None" "Property.values' self \<noteq> None"
    "Property.is_standard self \<noteq> None"
  shows "\<exists>m'. ebind (Property_deduplicate_with_modals self modals)
                 (\<lambda>(d, _). Property_merge_with_modals d modals) = Inr (self, m')"
proof -
  obtain a1 b1 c1 where f1:
    "dedup_field (Property.name self) (Present (property_name modals)) = Inr (a1, b1)"
    "adjust_field ''property_name'' a1 (Present (property_name modals)) = Inr (Property.name self, c1)"
    using field_round_trip [OF assms(1)] by blast
  obtain a2 b2 c2 where f2:
    "dedup_field (Property.values' self) (Present (property_value_list modals)) = Inr (a2, b2)"
    "adjust_field ''property_value_list'' a2 (Present (property_value_list modals))
       = Inr (Property.values' self, c2)"
    using field_round_trip [OF assms(2)] by blast
  obtain a3 b3 c3 where f3:
    "dedup_field (Property.is_standard self) (Present (property_is_standard modals)) = Inr (a3, b3)"
    "adjust_field ''property_is_standard'' a3 (Present (property_is_standard modals))
       = Inr (Property.is_standard self, c3)"
    using field_round_trip [OF assms(3)] by blast
  obtain c4 where f4:
    "adjust_field ''property_is_standard'' (Property.is_standard self)
       (Present (property_is_standard modals)) = Inr (Property.is_standard self, c4)"
    using adjust_field_set [OF assms(3)] by blast
  show ?thesis
  proof (cases "a2 = None \<and> a1 = None")
    case True
    from True f1(2) f2(2) have g:
      "adjust_field ''property_name'' None (Present (property_name modals)) = Inr (Property.name self, c1)"
      "adjust_field ''property_value_list'' None (Present (property_value_list modals))
         = Inr (Property.values' self, c2)"
      by simp_all
    from True f1(1) f2(1) have h:
      "dedup_field (Property.name self) (Present (property_name modals)) = Inr (None, b1)"
      "dedup_field (Property.values' self) (Present (property_value_list modals)) = Inr (None, b2)"
      by simp_all
    show ?thesis
      using g h f3
      by (simp add: Property_deduplicate_with_modals_def Property_merge_with_modals_def)
  next
    case False
    then have "\<not> (a2 = None \<and> a1 = None)" .
    then show ?thesis
      using f1 f2 f4
      by (simp add: Property_deduplicate_with_modals_def Property_merge_with_modals_def
            del: de_Morgan_conj not_None_eq)
  qed
qed

lemma ebind_lift:
  assumes "ebind v (\<lambda>(d, _). g d) = Inr (self, m')"
    and "\<And>d. G (C d) = ebind (g d) (\<lambda>(r, m). Inr (C r, m))"
  shows "ebind (ebind v (\<lambda>(r, m). Inr (C r, m))) (\<lambda>(d, _). G d) = Inr (C self, m')"
  using assms by (cases v) (auto simp: ebind_def split: prod.splits sum.splits)

text \<open>
  C2, as amended.  For a record whose attributes are all set, whose repetition is not
  the reuse marker, and which is not a \<^verbatim>\<open>Path\<close>, a \<^verbatim>\<open>CTrapezoid\<close> or a square rectangle,
  and for every state of the modal variables: \<^verbatim>\<open>deduplicate_with_modals\<close> returns, and
  \<^verbatim>\<open>merge_with_modals\<close> of its result against the modal variables in the state they
  started from returns the record.
\<close>

theorem dedup_then_merge_identity:
  assumes "populated rcd"
  shows "\<exists>modals'. dedup_then_merge rcd modals = Inr (rcd, modals')"
proof (cases rcd)
  case (R_Property r)
  with assms obtain m' where
    "ebind (Property_deduplicate_with_modals r modals) (\<lambda>(d, _). Property_merge_with_modals d modals)
       = Inr (r, m')"
    using Property_round_trip [of r modals] by auto
  from ebind_lift [OF this, where G = "\<lambda>d. merge_with_modals d modals" and C = R_Property]
  have "dedup_then_merge (R_Property r) modals = Inr (R_Property r, m')"
    by (simp add: dedup_then_merge_def)
  then show ?thesis
    unfolding R_Property by blast
next
  case (R_XGeometry r)
  with assms obtain m' where
    "ebind (XGeometry_deduplicate_with_modals r modals) (\<lambda>(d, _). XGeometry_merge_with_modals d modals)
       = Inr (r, m')"
    using XGeometry_round_trip [of r modals] by auto
  from ebind_lift [OF this, where G = "\<lambda>d. merge_with_modals d modals" and C = R_XGeometry]
  have "dedup_then_merge (R_XGeometry r) modals = Inr (R_XGeometry r, m')"
    by (simp add: dedup_then_merge_def)
  then show ?thesis
    unfolding R_XGeometry by blast
next
  case (R_Placement r)
  with assms obtain m' where
    "ebind (Placement_deduplicate_with_modals r modals) (\<lambda>(d, _). Placement_merge_with_modals d modals)
       = Inr (r, m')"
    using Placement_round_trip [of r modals] by auto
  from ebind_lift [OF this, where G = "\<lambda>d. merge_with_modals d modals" and C = R_Placement]
  have "dedup_then_merge (R_Placement r) modals = Inr (R_Placement r, m')"
    by (simp add: dedup_then_merge_def)
  then show ?thesis
    unfolding R_Placement by blast
next
  case (R_Text r)
  with assms obtain m' where
    "ebind (Text_deduplicate_with_modals r modals) (\<lambda>(d, _). Text_merge_with_modals d modals)
       = Inr (r, m')"
    using Text_round_trip [of r modals] by auto
  from ebind_lift [OF this, where G = "\<lambda>d. merge_with_modals d modals" and C = R_Text]
  have "dedup_then_merge (R_Text r) modals = Inr (R_Text r, m')"
    by (simp add: dedup_then_merge_def)
  then show ?thesis
    unfolding R_Text by blast
next
  case (R_Rectangle r)
  with assms obtain m' where
    "ebind (Rectangle_deduplicate_with_modals r modals) (\<lambda>(d, _). Rectangle_merge_with_modals d modals)
       = Inr (r, m')"
    using Rectangle_round_trip [of r modals] by auto
  from ebind_lift [OF this, where G = "\<lambda>d. merge_with_modals d modals" and C = R_Rectangle]
  have "dedup_then_merge (R_Rectangle r) modals = Inr (R_Rectangle r, m')"
    by (simp add: dedup_then_merge_def)
  then show ?thesis
    unfolding R_Rectangle by blast
next
  case (R_Polygon r)
  with assms obtain m' where
    "ebind (Polygon_deduplicate_with_modals r modals) (\<lambda>(d, _). Polygon_merge_with_modals d modals)
       = Inr (r, m')"
    using Polygon_round_trip [of r modals] by auto
  from ebind_lift [OF this, where G = "\<lambda>d. merge_with_modals d modals" and C = R_Polygon]
  have "dedup_then_merge (R_Polygon r) modals = Inr (R_Polygon r, m')"
    by (simp add: dedup_then_merge_def)
  then show ?thesis
    unfolding R_Polygon by blast
next
  case (R_Trapezoid r)
  with assms obtain m' where
    "ebind (Trapezoid_deduplicate_with_modals r modals) (\<lambda>(d, _). Trapezoid_merge_with_modals d modals)
       = Inr (r, m')"
    using Trapezoid_round_trip [of r modals] by auto
  from ebind_lift [OF this, where G = "\<lambda>d. merge_with_modals d modals" and C = R_Trapezoid]
  have "dedup_then_merge (R_Trapezoid r) modals = Inr (R_Trapezoid r, m')"
    by (simp add: dedup_then_merge_def)
  then show ?thesis
    unfolding R_Trapezoid by blast
next
  case (R_Circle r)
  with assms obtain m' where
    "ebind (Circle_deduplicate_with_modals r modals) (\<lambda>(d, _). Circle_merge_with_modals d modals)
       = Inr (r, m')"
    using Circle_round_trip [of r modals] by auto
  from ebind_lift [OF this, where G = "\<lambda>d. merge_with_modals d modals" and C = R_Circle]
  have "dedup_then_merge (R_Circle r) modals = Inr (R_Circle r, m')"
    by (simp add: dedup_then_merge_def)
  then show ?thesis
    unfolding R_Circle by blast
qed (insert assms, simp_all add: dedup_then_merge_def)

lemmas eval_merge =
  dedup_then_merge_def Circle_deduplicate_with_modals_def Circle_merge_with_modals_def
  dedup_coordinates_def adjust_coordinates_def dedup_repetition_def adjust_repetition_def
  dedup_field_def adjust_field_def Modals_init_def

theorem dedup_then_merge_identity_witness:
  "populated (R_Circle \<lparr> Circle.layer = Some 1, datatype' = Some 0, x = Some 3, y = Some 4,
                repetition = None, radius = Some 5 \<rparr> :: (nat, nat, nat, nat) Record) \<and>
   (\<exists>modals'. dedup_then_merge
        (R_Circle \<lparr> Circle.layer = Some 1, datatype' = Some 0, x = Some 3, y = Some 4,
                    repetition = None, radius = Some 5 \<rparr> :: (nat, nat, nat, nat) Record)
        (Modals_init\<lparr>circle_radius := Some 5\<rparr>)
      = Inr (R_Circle \<lparr> Circle.layer = Some 1, datatype' = Some 0, x = Some 3, y = Some 4,
                    repetition = None, radius = Some 5 \<rparr>, modals'))"
proof -
  let ?r = "R_Circle \<lparr> Circle.layer = Some 1, datatype' = Some 0, x = Some 3, y = Some 4,
                repetition = None, radius = Some 5 \<rparr> :: (nat, nat, nat, nat) Record"
  have h: "populated ?r" by simp
  from dedup_then_merge_identity [OF h, of "Modals_init\<lparr>circle_radius := Some 5\<rparr>"] h
  show ?thesis by blast
qed

text \<open>
  C2, as stated, fails on a record with an attribute that is unset: the merge fills it
  from the modal variable, so that the record that comes back is not the one that went
  in.  Here a \<^verbatim>\<open>Circle\<close> without radius comes back with the modal radius 5.
\<close>

theorem dedup_then_merge_counterexample:
  "map_sum id fst
     (dedup_then_merge
        (R_Circle \<lparr> Circle.layer = Some 1, datatype' = Some 0, x = Some 3, y = Some 4,
                    repetition = None, radius = None \<rparr> :: (nat, nat, nat, nat) Record)
        (Modals_init\<lparr>circle_radius := Some 5\<rparr>))
   = Inr (R_Circle \<lparr> Circle.layer = Some 1, datatype' = Some 0, x = Some 3, y = Some 4,
                     repetition = None, radius = Some 5 \<rparr>) \<and>
   R_Circle \<lparr> Circle.layer = Some 1, datatype' = Some 0, x = Some 3, y = Some 4,
              repetition = None, radius = Some 5 \<rparr>
   \<noteq> (R_Circle \<lparr> Circle.layer = Some 1, datatype' = Some 0, x = Some 3, y = Some 4,
                  repetition = None, radius = None \<rparr> :: (nat, nat, nat, nat) Record)"
  by (simp add: eval_merge)

text \<open>
  The three cases that the amended statement leaves out.  \<^verbatim>\<open>CTrapezoid\<close>: the second
  deduplication of the width finds the value that the first one has just stored, and
  clears the width.  \<^verbatim>\<open>Path\<close>: on modal variables that no \<^verbatim>\<open>Path\<close> has been merged with,
  the modal attribute \<open>path_half_width\<close> does not exist.  Square \<^verbatim>\<open>Rectangle\<close>: the width
  is cleared against \<open>geometry_h\<close> and filled again from \<open>geometry_w\<close>.
\<close>

lemma CTrapezoid_deduplicated_twice:
  "map_sum id (CTrapezoid.width \<circ> fst)
     (CTrapezoid_deduplicate_with_modals
        \<lparr> CTrapezoid.ctrapezoid_type = Some 0, layer = Some 1, datatype' = Some 0,
          width = Some 10, height = Some 5, x = Some 3, y = Some 4,
          repetition = (None :: nat repetition_t option) \<rparr>
        ((Modals_init :: (nat, nat) Modals)\<lparr>geometry_w := Some 20, geometry_h := Some 20\<rparr>))
   = Inr None"
  by (simp add: CTrapezoid_deduplicate_with_modals_def dedup_coordinates_def
        dedup_repetition_def dedup_field_def Modals_init_def)

lemma Path_deduplicate_raises:
  "Path_deduplicate_with_modals
     \<lparr> Path.layer = Some 1, datatype' = Some 0, x = Some 3, y = Some 4,
       repetition = (None :: nat repetition_t option), point_list = Some [[0, 0], [1, 1]],
       half_width = Some 2, extension_start = Some (Flush, None),
       extension_end = Some (Flush, None) \<rparr>
     (Modals_init :: (nat, nat) Modals)
   = Inl AttributeError"
  by (simp add: Path_deduplicate_with_modals_def dedup_coordinates_def
        dedup_repetition_def dedup_field_def Modals_init_def)

lemma Rectangle_square_deduplicated_twice:
  "map_sum id fst
     (dedup_then_merge
        (R_Rectangle \<lparr> Rectangle.layer = Some 1, datatype' = Some 0, width = Some 10,
            height = None, x = Some 3, y = Some 4, repetition = None, is_square = True \<rparr>
          :: (nat, nat, nat, nat) Record)
        (Modals_init\<lparr>geometry_w := Some 20, geometry_h := Some 10\<rparr>))
   = Inr (R_Rectangle \<lparr> Rectangle.layer = Some 1, datatype' = Some 0, width = Some 20,
            height = None, x = Some 3, y = Some 4, repetition = None, is_square = True \<rparr>)"
  by (simp add: dedup_then_merge_def Rectangle_deduplicate_with_modals_def
        Rectangle_merge_with_modals_def dedup_coordinates_def adjust_coordinates_def
        dedup_repetition_def adjust_repetition_def dedup_field_def adjust_field_def
        Modals_init_def)

section \<open>The constraints on the dimensions of a CTrapezoid\<close>

lemma ebind_eq_Inl: "ebind v f = Inl e \<longleftrightarrow> v = Inl e \<or> (\<exists>a. v = Inr a \<and> f a = Inl e)"
  by (cases v) simp_all

lemma adjust_field_Inl:
  "adjust_field m_field r (Present m) = Inl e \<Longrightarrow> e = InvalidDataError (''Unfillable field: '' @ m_field)"
  by (auto simp: adjust_field_def split: option.splits)

lemma adjust_repetition_Inl:
  "adjust_repetition r m = Inl e \<Longrightarrow> e = InvalidDataError ''Unfillable repetition''"
  by (auto simp: adjust_repetition_def split: option.splits repetition_t.splits)

lemma adjust_repetition_explicit:
  assumes "r \<noteq> Some ReuseRepetition"
  shows "\<exists>r' m'. adjust_repetition r m = Inr (r', m')"
proof (cases r)
  case None
  then show ?thesis by (simp add: adjust_repetition_def)
next
  case (Some a)
  with assms obtain v where "r = Some (Repetition v)" by (cases a) auto
  then show ?thesis by (simp add: adjust_repetition_def)
qed

lemma CTrapezoid_init_None:
  assumes "t < 16" and "w = None \<or> h = None"
  shows "CTrapezoid_init (Some t) l d w h xv yv rep = Inl TypeError"
proof -
  consider "t < 4" | "4 \<le> t" "t < 8" | "8 \<le> t" "t < 12" | "12 \<le> t" "t < 16"
    using assms(1) by linarith
  then show ?thesis
    using assms(2)
    by cases
       (auto simp: CTrapezoid_init_def check_dimensions_def in_range_def compare_ints_def
          split: option.splits)
qed

lemma CTrapezoid_merge_errors:
  assumes "CTrapezoid_merge_with_modals self modals = Inl e"
  shows "e \<in> {InvalidDataError ''Unfillable repetition'',
              InvalidDataError ''Unfillable field: layer'',
              InvalidDataError ''Unfillable field: datatype'',
              InvalidDataError ''Unfillable field: ctrapezoid_type'',
              InvalidDataError ''Unfillable field: geometry_w'',
              InvalidDataError ''Unfillable field: geometry_h'',
              InvalidDataError ''CTrapezoid has spurious width entry: '',
              InvalidDataError ''CTrapezoid has spurious height entry: ''}"
  using assms unfolding CTrapezoid_merge_with_modals_def adjust_coordinates_total
  by (auto simp: ebind_eq_Inl split: if_splits
        dest!: adjust_field_Inl adjust_repetition_Inl)

lemma CTrapezoid_merge_fills_type:
  assumes "CTrapezoid.ctrapezoid_type self = None"
    and "Modals.ctrapezoid_type modals = Some t" and "t < 16"
    and "CTrapezoid.width self = Some wv" and "CTrapezoid.height self = Some hv"
    and "CTrapezoid.layer self \<noteq> None" and "CTrapezoid.datatype' self \<noteq> None"
    and "CTrapezoid.repetition self \<noteq> Some ReuseRepetition"
  shows "\<exists>self' modals'. CTrapezoid_merge_with_modals self modals = Inr (self', modals') \<and>
           CTrapezoid.ctrapezoid_type self' = Some t \<and>
           CTrapezoid.width self' = Some wv \<and> CTrapezoid.height self' = Some hv"
proof -
  obtain l where l: "CTrapezoid.layer self = Some l" using assms(6) by auto
  obtain d where d: "CTrapezoid.datatype' self = Some d" using assms(7) by auto
  obtain r' m' where r: "adjust_repetition (CTrapezoid.repetition self) (Modals.repetition modals)
      = Inr (r', m')"
    using adjust_repetition_explicit [OF assms(8)] by blast
  show ?thesis
    using assms(1-5) l d r
    by (simp add: CTrapezoid_merge_with_modals_def adjust_coordinates_total adjust_field_def)
qed

lemma read_if_False: "read_if False rd stream = Inr (v, rest) \<Longrightarrow> v = None"
  by (simp add: read_if_def rreturn_def)

lemma CTrapezoid_read_constructs:
  assumes "read_bool_byte s0 = Inr ((ft, fw, fh, fx, fy, fr, fd, fl), s1)"
    and "read_if fl read_uint s1 = Inr (lv, s2)"
    and "read_if fd read_uint s2 = Inr (dv, s3)"
    and "read_if ft read_uint s3 = Inr (tv, s4)"
    and "read_if fw read_uint s4 = Inr (wv, s5)"
    and "read_if fh read_uint s5 = Inr (hv, s6)"
    and "read_if fx read_sint s6 = Inr (xv, s7)"
    and "read_if fy read_sint s7 = Inr (yv, s8)"
    and "read_if fr read_repetition s8 = Inr (rv, s9)"
  shows "CTrapezoid_read read_repetition 26 s0
           = ebind (CTrapezoid_init tv lv dv wv hv xv yv rv) (\<lambda>record. Inr (record, s9))"
  by (simp add: CTrapezoid_read_def rbind_def assms)

lemma CTrapezoid_read_None:
  assumes "read_bool_byte s0 = Inr ((True, fw, fh, fx, fy, fr, fd, fl), s1)"
    and "read_if fl read_uint s1 = Inr (lv, s2)"
    and "read_if fd read_uint s2 = Inr (dv, s3)"
    and "read_uint s3 = Inr (tt, s4)" and "tt < 16"
    and "read_if fw read_uint s4 = Inr (wv, s5)"
    and "read_if fh read_uint s5 = Inr (hv, s6)"
    and "read_if fx read_sint s6 = Inr (xv, s7)"
    and "read_if fy read_sint s7 = Inr (yv, s8)"
    and "read_if fr read_repetition s8 = Inr (rv, s9)"
    and "\<not> fw \<or> \<not> fh"
  shows "CTrapezoid_read read_repetition 26 s0 = Inl TypeError"
proof -
  have t: "read_if True read_uint s3 = Inr (Some tt, s4)"
    using assms(4) by (simp add: read_if_def rbind_def rreturn_def)
  have "wv = None \<or> hv = None"
    using assms(6,7,11) read_if_False by metis
  then have "CTrapezoid_init (Some tt) lv dv wv hv xv yv rv = Inl TypeError"
    using assms(5) by (simp add: CTrapezoid_init_None)
  then show ?thesis
    using CTrapezoid_read_constructs [OF assms(1-3) t assms(6-10)] by simp
qed

text \<open>
  C10.  Constructing a \<^verbatim>\<open>CTrapezoid\<close> of a type from 0 to 15 with the width or the height
  unset raises \<^verbatim>\<open>TypeError\<close>, which is not the \<^verbatim>\<open>InvalidDataError\<close> of the layer.  So does
  reading one: whenever the header announces the type and not both the width and the
  height, whatever its other flags, and the fields read are there with a type from 0
  to 15.  \<^verbatim>\<open>merge_with_modals\<close> raises nothing but the errors of unfillable attributes and
  of spurious widths and heights: it never compares the width with the height, and a
  record without type whose other attributes are set takes any modal type from 0 to
  15, whatever its width and height.
\<close>

theorem CTrapezoid_constraints_at_construction:
  "(t < 16 \<and> (w = None \<or> h = None) \<longrightarrow>
      CTrapezoid_init (Some t) l d w h xv yv rep = Inl TypeError) \<and>
   (read_bool_byte sa = Inr ((True, fw, fh, fx, fy, fr, fd, fl), sb) \<and>
    read_if fl read_uint sb = Inr (lv, sc) \<and>
    read_if fd read_uint sc = Inr (dv, sd) \<and>
    read_uint sd = Inr (tt, se) \<and> tt < 16 \<and>
    read_if fw read_uint se = Inr (rw, sf) \<and>
    read_if fh read_uint sf = Inr (rh, sg) \<and>
    read_if fx read_sint sg = Inr (rx, sh) \<and>
    read_if fy read_sint sh = Inr (ry, si) \<and>
    read_if fr read_repetition si = Inr (rv, sj) \<and>
    (\<not> fw \<or> \<not> fh) \<longrightarrow>
      CTrapezoid_read read_repetition 26 sa = Inl TypeError) \<and>
   (\<forall>e. CTrapezoid_merge_with_modals self modals = Inl e \<longrightarrow>
      e \<in> {InvalidDataError ''Unfillable repetition'',
           InvalidDataError ''Unfillable field: layer'',
           InvalidDataError ''Unfillable field: datatype'',
           InvalidDataError ''Unfillable field: ctrapezoid_type'',
           InvalidDataError ''Unfillable field: geometry_w'',
           InvalidDataError ''Unfillable field: geometry_h'',
           InvalidDataError ''CTrapezoid has spurious width entry: '',
           InvalidDataError ''CTrapezoid has spurious height entry: ''}) \<and>
   (CTrapezoid.ctrapezoid_type self = None \<and> Modals.ctrapezoid_type modals = Some t \<and> t < 16 \<and>
    CTrapezoid.width self = Some wv \<and> CTrapezoid.height self = Some hv \<and>
    CTrapezoid.layer self \<noteq> None \<and> CTrapezoid.datatype' self \<noteq> None \<and>
    CTrapezoid.repetition self \<noteq> Some ReuseRepetition \<longrightarrow>
      (\<exists>self' modals'. CTrapezoid_merge_with_modals self modals = Inr (self', modals') \<and>
         CTrapezoid.ctrapezoid_type self' = Some t \<and>
         CTrapezoid.width self' = Some wv \<and> CTrapezoid.height self' = Some hv))"
  using CTrapezoid_init_None [of t w h l d xv yv rep]
    CTrapezoid_read_None [of sa fw fh fx fy fr fd fl sb lv sc dv sd tt se rw sf rh sg rx sh ry si
      read_repetition rv sj]
    CTrapezoid_merge_errors [of self modals]
    CTrapezoid_merge_fills_type [of self modals t wv hv]
  by blast

theorem CTrapezoid_constraints_at_construction_witness:
  "CTrapezoid_init (Some 0) (Some 1) (Some 0) None (Some 5) (Some 3) (Some 4)
     (None :: nat repetition_t option) = Inl TypeError \<and>
   CTrapezoid_read (\<lambda>s. Inr (ReuseRepetition :: nat repetition_t, s)) 26 [0xC0, 0x00, 0x05]
     = Inl TypeError \<and>
   (\<exists>self' modals'.
      CTrapezoid_merge_with_modals
        \<lparr> CTrapezoid.ctrapezoid_type = None, layer = Some 1, datatype' = Some 0,
          width = Some 1, height = Some 5, x = Some 3, y = Some 4,
          repetition = (None :: nat repetition_t option) \<rparr>
        ((Modals_init :: (nat, nat) Modals)\<lparr>Modals.ctrapezoid_type := Some 0\<rparr>)
        = Inr (self', modals') \<and>
      CTrapezoid.ctrapezoid_type self' = Some 0 \<and>
      CTrapezoid.width self' = Some 1 \<and> CTrapezoid.height self' = Some 5) \<and>
   CTrapezoid_init (Some 0) (Some 1) (Some 0) (Some 1) (Some 5) (Some 3) (Some 4)
     (None :: nat repetition_t option) = Inl (InvalidDataError ''CTrapezoid has width < height'')"
proof -
  let ?c = "\<lparr> CTrapezoid.ctrapezoid_type = None, layer = Some 1, datatype' = Some 0,
          width = Some 1, height = Some 5, x = Some 3, y = Some 4,
          repetition = (None :: nat repetition_t option) \<rparr>"
  let ?m = "(Modals_init :: (nat, nat) Modals)\<lparr>Modals.ctrapezoid_type := Some 0\<rparr>"
  have h1: "(0::nat) < 16 \<and> ((None :: nat option) = None \<or> Some (5::nat) = None)" by simp
  have a: "CTrapezoid_init (Some 0) (Some 1) (Some 0) None (Some 5) (Some 3) (Some 4)
     (None :: nat repetition_t option) = Inl TypeError"
    using CTrapezoid_constraints_at_construction [where t = 0 and w = None and h = "Some 5"
        and l = "Some 1" and d = "Some 0" and xv = "Some 3" and yv = "Some 4" and rep = None,
        THEN conjunct1]
      h1 by blast
  have h2: "read_bool_byte [0xC0, 0x00, 0x05 :: byte]
               = Inr ((True, True, False, False, False, False, False, False), [0x00, 0x05]) \<and>
    read_if False read_uint [0x00, 0x05 :: byte] = Inr (None, [0x00, 0x05]) \<and>
    read_if False read_uint [0x00, 0x05 :: byte] = Inr (None, [0x00, 0x05]) \<and>
    read_uint [0x00, 0x05 :: byte] = Inr (0, [0x05]) \<and> (0::nat) < 16 \<and>
    read_if True read_uint [0x05 :: byte] = Inr (Some 5, []) \<and>
    read_if False read_uint ([] :: byte list) = Inr (None, []) \<and>
    read_if False read_sint ([] :: byte list) = Inr (None, []) \<and>
    read_if False read_sint ([] :: byte list) = Inr (None, []) \<and>
    read_if False (\<lambda>s. Inr (ReuseRepetition :: nat repetition_t, s)) ([] :: byte list)
      = Inr (None, []) \<and>
    (\<not> True \<or> \<not> False)"
    by (simp add: read_bool_byte_def read_if_def rbind_def rreturn_def)
  have b: "CTrapezoid_read (\<lambda>s. Inr (ReuseRepetition :: nat repetition_t, s)) 26
             [0xC0, 0x00, 0x05] = Inl TypeError"
    using CTrapezoid_constraints_at_construction [where sa = "[0xC0, 0x00, 0x05]"
        and fw = True and fh = False and fx = False and fy = False and fr = False
        and fd = False and fl = False and sb = "[0x00, 0x05]" and lv = None
        and sc = "[0x00, 0x05]" and dv = None and sd = "[0x00, 0x05]" and tt = 0
        and se = "[0x05]" and rw = "Some 5" and sf = "[]" and rh = None
        and sg = "[]" and rx = None and sh = "[]" and ry = None and si = "[]"
        and rv = None and sj = "[]"
        and read_repetition = "\<lambda>s. Inr (ReuseRepetition :: nat repetition_t, s)",
        THEN conjunct2, THEN conjunct1]
      h2 by blast
  have h4: "CTrapezoid.ctrapezoid_type ?c = None \<and> Modals.ctrapezoid_type ?m = Some 0 \<and>
    (0::nat) < 16 \<and> CTrapezoid.width ?c = Some 1 \<and> CTrapezoid.height ?c = Some 5 \<and>
    CTrapezoid.layer ?c \<noteq> None \<and> CTrapezoid.datatype' ?c \<noteq> None \<and>
    CTrapezoid.repetition ?c \<noteq> Some ReuseRepetition"
    by simp
  have c: "\<exists>self' modals'. CTrapezoid_merge_with_modals ?c ?m = Inr (self', modals') \<and>
      CTrapezoid.ctrapezoid_type self' = Some 0 \<and>
      CTrapezoid.width self' = Some 1 \<and> CTrapezoid.height self' = Some 5"
    using CTrapezoid_constraints_at_construction [where self = ?c and modals = ?m and t = 0
        and wv = 1 and hv = 5, THEN conjunct2, THEN conjunct2, THEN conjunct2] h4 by blast
  have d: "CTrapezoid_init (Some 0) (Some 1) (Some 0) (Some 1) (Some 5) (Some 3) (Some 4)
     (None :: nat repetition_t option) = Inl (InvalidDataError ''CTrapezoid has width < height'')"
    by (simp add: CTrapezoid_init_def check_dimensions_def in_range_def compare_ints_def)
  from a b c d show ?thesis by blast
qed

end
